theory Spec2Isabelle
  imports Main "HOL-Library.Sublist"
begin

section \<open>Python values\<close>

text \<open>
  The server (\<^verbatim>\<open>server.py\<close>) moves decoded JSON between Flask, \<^verbatim>\<open>requests\<close> and
  \<^verbatim>\<open>json.loads\<close>. A decoded JSON value is one of Python's \<^verbatim>\<open>None\<close>, \<^verbatim>\<open>bool\<close>,
  \<^verbatim>\<open>int\<close>, \<^verbatim>\<open>float\<close>, \<^verbatim>\<open>str\<close>, \<^verbatim>\<open>list\<close> and \<^verbatim>\<open>dict\<close> (string keys).
  A float is \<open>m * 2 ^ e\<close> or one of the three non-finite values. A dict is an association
  list in insertion order; the first binding of a key is its value. A \<^verbatim>\<open>str\<close> is a list of
  characters, each a code point below 256.
\<close>

datatype pyfloat = Finite int int | PosInf | NegInf | NaN

datatype json =
    JNull
  | JBool bool
  | JInt int
  | JFloat pyfloat
  | JStr string
  | JArr "json list"
  | JObj "(string \<times> json) list"

datatype py_error = AttributeError | KeyError | TypeError | IndexError

text \<open>Truth value testing, as \<^verbatim>\<open>if x:\<close> and \<^verbatim>\<open>not x\<close> do it.\<close>

fun float_nonzero :: "pyfloat \<Rightarrow> bool" where
  "float_nonzero (Finite m e) = (m \<noteq> 0)"
| "float_nonzero PosInf = True"
| "float_nonzero NegInf = True"
| "float_nonzero NaN = True"

fun truthy :: "json \<Rightarrow> bool" where
  "truthy JNull = False"
| "truthy (JBool b) = b"
| "truthy (JInt n) = (n \<noteq> 0)"
| "truthy (JFloat f) = float_nonzero f"
| "truthy (JStr s) = (s \<noteq> [])"
| "truthy (JArr xs) = (xs \<noteq> [])"
| "truthy (JObj kvs) = (kvs \<noteq> [])"

text \<open>\<^verbatim>\<open>x.get(key, default)\<close>: only a dict has the method.\<close>

fun py_get :: "json \<Rightarrow> string \<Rightarrow> json \<Rightarrow> py_error + json" where
  "py_get (JObj kvs) k d = Inr (case map_of kvs k of Some v \<Rightarrow> v | None \<Rightarrow> d)"
| "py_get JNull k d = Inl AttributeError"
| "py_get (JBool b) k d = Inl AttributeError"
| "py_get (JInt n) k d = Inl AttributeError"
| "py_get (JFloat f) k d = Inl AttributeError"
| "py_get (JStr s) k d = Inl AttributeError"
| "py_get (JArr xs) k d = Inl AttributeError"

text \<open>\<^verbatim>\<open>x[key]\<close> with a string key.\<close>

fun py_item :: "json \<Rightarrow> string \<Rightarrow> py_error + json" where
  "py_item (JObj kvs) k = (case map_of kvs k of Some v \<Rightarrow> Inr v | None \<Rightarrow> Inl KeyError)"
| "py_item JNull k = Inl TypeError"
| "py_item (JBool b) k = Inl TypeError"
| "py_item (JInt n) k = Inl TypeError"
| "py_item (JFloat f) k = Inl TypeError"
| "py_item (JStr s) k = Inl TypeError"
| "py_item (JArr xs) k = Inl TypeError"

text \<open>
  \<^verbatim>\<open>x[i]\<close> with a non-negative integer literal. The keys of a decoded dict are strings, so
  an integer key is never found.
\<close>

fun py_index :: "json \<Rightarrow> nat \<Rightarrow> py_error + json" where
  "py_index (JArr xs) i = (if i < length xs then Inr (xs ! i) else Inl IndexError)"
| "py_index (JStr s) i = (if i < length s then Inr (JStr [s ! i]) else Inl IndexError)"
| "py_index (JObj kvs) i = Inl KeyError"
| "py_index JNull i = Inl TypeError"
| "py_index (JBool b) i = Inl TypeError"
| "py_index (JInt n) i = Inl TypeError"
| "py_index (JFloat f) i = Inl TypeError"

text \<open>
  \<^verbatim>\<open>for item in x\<close>: a list yields its elements, a string its characters, a dict its
  keys; nothing else is iterable.
\<close>

fun py_iter :: "json \<Rightarrow> py_error + json list" where
  "py_iter (JArr xs) = Inr xs"
| "py_iter (JStr s) = Inr (map (\<lambda>c. JStr [c]) s)"
| "py_iter (JObj kvs) = Inr (map JStr (remdups (map fst kvs)))"
| "py_iter JNull = Inl TypeError"
| "py_iter (JBool b) = Inl TypeError"
| "py_iter (JInt n) = Inl TypeError"
| "py_iter (JFloat f) = Inl TypeError"

text \<open>A raised exception ends the evaluation of an expression.\<close>

definition bind_err :: "py_error + 'a \<Rightarrow> ('a \<Rightarrow> py_error + 'b) \<Rightarrow> py_error + 'b" where
  "bind_err m f = (case m of Inl e \<Rightarrow> Inl e | Inr x \<Rightarrow> f x)"

section \<open>Python strings\<close>

text \<open>\<^verbatim>\<open>str.isspace\<close> on one character, for code points below 256.\<close>

definition py_isspace :: "char \<Rightarrow> bool" where
  "py_isspace c =
     (let n = (of_char c :: nat)
      in (9 \<le> n \<and> n \<le> 13) \<or> (28 \<le> n \<and> n \<le> 32) \<or> n = 133 \<or> n = 160)"

definition py_strip :: "string \<Rightarrow> string" where
  "py_strip s = rev (dropWhile py_isspace (rev (dropWhile py_isspace s)))"

text \<open>
  \<^verbatim>\<open>s.replace(old, new)\<close>: the occurrences of \<open>old\<close> are found from the left, each
  search starting after the previous occurrence. An empty \<open>old\<close> matches before every
  character and at the end.
\<close>

fun py_replace :: "string \<Rightarrow> string \<Rightarrow> string \<Rightarrow> string" where
  "py_replace old new [] = (if old = [] then new else [])"
| "py_replace old new (c # cs) =
     (if old = [] then new @ c # py_replace old new cs
      else if prefix old (c # cs) then new @ py_replace old new (drop (length old - 1) cs)
      else c # py_replace old new cs)"

text \<open>\<^verbatim>\<open>needle in s\<close> on strings.\<close>

fun py_in :: "string \<Rightarrow> string \<Rightarrow> bool" where
  "py_in needle [] = (needle = [])"
| "py_in needle (c # cs) = (prefix needle (c # cs) \<or> py_in needle cs)"

text \<open>
  \<^verbatim>\<open>str.lower\<close>, for code points below 256: the letters A to Z and the upper-case
  letters of Latin-1 (all of 192 to 222 but the multiplication sign) move up by 32.
\<close>

definition lower_char :: "char \<Rightarrow> char" where
  "lower_char c =
     (let n = (of_char c :: nat)
      in if (65 \<le> n \<and> n \<le> 90) \<or> (192 \<le> n \<and> n \<le> 222 \<and> n \<noteq> 215)
         then char_of (n + 32) else c)"

definition py_lower :: "string \<Rightarrow> string" where
  "py_lower s = map lower_char s"

section \<open>Startup\<close>

text \<open>
  The module reads both keys with \<^verbatim>\<open>os.getenv\<close> (after \<^verbatim>\<open>load_dotenv\<close>, so the
  environment here is the process environment with the entries of the \<^verbatim>\<open>.env\<close> file)
  and leaves with \<^verbatim>\<open>exit(1)\<close> when one is unset or empty. The checks stand at module
  level, before \<^verbatim>\<open>app.run\<close>.
\<close>

datatype process = Exited nat | Serving

definition unset :: "string option \<Rightarrow> bool" where
  "unset v = (case v of None \<Rightarrow> True | Some s \<Rightarrow> s = [])"

definition google_key_missing :: "string list" where
  "google_key_missing =
     [''CRITICAL: GOOGLE_API_KEY environment variable not set.'',
      ''Please set it in your .env file or as an environment variable directly.'',
      ''You can get one from https://makersuite.google.com/app/apikey'']"

definition youtube_key_missing :: "string list" where
  "youtube_key_missing =
     [''CRITICAL: YOUTUBE_API_KEY environment variable not set.'',
      ''Please set it in your .env file or as an environment variable directly.'',
      ''You can get one from console.cloud.google.com, APIs & Services -> Credentials.'',
      ''Also, ensure YouTube Data API v3 is enabled in your GCP project.'']"

text \<open>The lines printed, and how the module-level code ends.\<close>

definition startup :: "(string \<rightharpoonup> string) \<Rightarrow> string list \<times> process" where
  "startup env =
     (if unset (env ''GOOGLE_API_KEY'') then (google_key_missing, Exited 1)
      else if unset (env ''YOUTUBE_API_KEY'') then (youtube_key_missing, Exited 1)
      else ([], Serving))"

section \<open>The outside world\<close>

text \<open>
  What \<^verbatim>\<open>requests.post\<close> or \<^verbatim>\<open>requests.get\<close>, then \<^verbatim>\<open>raise_for_status\<close>, then
  \<^verbatim>\<open>response.json()\<close> come to: the request raises (no connection, timeout),
  \<^verbatim>\<open>raise_for_status\<close> raises \<^verbatim>\<open>HTTPError\<close> on an error status, the body is not JSON
  (\<^verbatim>\<open>requests.exceptions.JSONDecodeError\<close>), or the body decodes. The first three are all
  \<^verbatim>\<open>RequestException\<close>s.
\<close>

datatype http_outcome = ConnectionFailed | BadStatus nat | InvalidBody | JsonBody json

text \<open>
  The two services and the library functions the handlers rely on: the completion
  endpoint (by request payload), the video search (by query), \<^verbatim>\<open>json.loads\<close> (\<open>None\<close>
  when it raises \<^verbatim>\<open>JSONDecodeError\<close>) and \<^verbatim>\<open>str()\<close> of a value that is not a string.
\<close>

record upstream =
  gemini_post :: "json \<Rightarrow> http_outcome"
  youtube_get :: "string \<Rightarrow> http_outcome"
  json_loads :: "string \<Rightarrow> json option"
  py_str :: "json \<Rightarrow> string"

text \<open>Every outbound request is recorded, in order.\<close>

datatype outbound = GeminiCall json | YoutubeCall string

text \<open>A value inside an f-string.\<close>

definition py_format :: "upstream \<Rightarrow> json \<Rightarrow> string" where
  "py_format up v = (case v of JStr s \<Rightarrow> s | _ \<Rightarrow> py_str up v)"

section \<open>The completion call\<close>

definition schema_given :: "json option \<Rightarrow> bool" where
  "schema_given response_schema = (case response_schema of None \<Rightarrow> False | Some s \<Rightarrow> truthy s)"

definition gemini_payload :: "string \<Rightarrow> json option \<Rightarrow> json" where
  "gemini_payload prompt response_schema =
     JObj ((''contents'',
            JArr [JObj [(''role'', JStr ''user''),
                        (''parts'', JArr [JObj [(''text'', JStr prompt)]])]])
           # (case response_schema of
                Some s \<Rightarrow>
                  if truthy s
                  then [(''generationConfig'',
                         JObj [(''responseMimeType'', JStr ''application/json''),
                               (''responseSchema'', s)])]
                  else []
              | None \<Rightarrow> []))"

text \<open>
  The guard of \<^verbatim>\<open>call_gemini_api\<close>:
  \<^verbatim>\<open>result.get("candidates") and result["candidates"][0].get("content") and
  result["candidates"][0]["content"].get("parts")\<close>, evaluated from the left.
\<close>

definition has_parts :: "json \<Rightarrow> py_error + bool" where
  "has_parts result =
     bind_err (py_get result ''candidates'' JNull) (\<lambda>c.
       if \<not> truthy c then Inr False
       else
         bind_err (py_item result ''candidates'') (\<lambda>cs.
         bind_err (py_index cs 0) (\<lambda>c0.
         bind_err (py_get c0 ''content'' JNull) (\<lambda>ct.
           if \<not> truthy ct then Inr False
           else
             bind_err (py_item result ''candidates'') (\<lambda>cs'.
             bind_err (py_index cs' 0) (\<lambda>c0'.
             bind_err (py_item c0' ''content'') (\<lambda>ct'.
             bind_err (py_get ct' ''parts'' JNull) (\<lambda>ps.
               Inr (truthy ps)))))))))"

text \<open>\<^verbatim>\<open>result["candidates"][0]["content"]["parts"][0]["text"]\<close>\<close>

definition first_part_text :: "json \<Rightarrow> py_error + json" where
  "first_part_text result =
     bind_err (py_item result ''candidates'') (\<lambda>cs.
     bind_err (py_index cs 0) (\<lambda>c0.
     bind_err (py_item c0 ''content'') (\<lambda>ct.
     bind_err (py_item ct ''parts'') (\<lambda>ps.
     bind_err (py_index ps 0) (\<lambda>p0.
     py_item p0 ''text'')))))"

text \<open>
  \<^verbatim>\<open>text_response.replace('```json\n', '').replace('\n```', '').strip()\<close>
\<close>

definition clean_json_string :: "string \<Rightarrow> string" where
  \<open>clean_json_string text_response =
     py_strip (py_replace ''\<newline>```'' [] (py_replace ''```json\<newline>'' [] text_response))\<close>

text \<open>
  The body of the \<^verbatim>\<open>try\<close> once the response has decoded. \<^verbatim>\<open>replace\<close> and \<^verbatim>\<open>strip\<close>
  are methods of \<^verbatim>\<open>str\<close> alone. A \<^verbatim>\<open>JSONDecodeError\<close> of \<^verbatim>\<open>json.loads\<close> is caught and
  gives \<^verbatim>\<open>None\<close>; the two \<^verbatim>\<open>except\<close> clauses catch nothing else that is raised here.
\<close>

definition gemini_result :: "upstream \<Rightarrow> json option \<Rightarrow> json \<Rightarrow> py_error + json" where
  "gemini_result up response_schema result =
     bind_err (has_parts result) (\<lambda>ok.
       if ok then
         bind_err (first_part_text result) (\<lambda>t.
           case t of
             JStr text_response \<Rightarrow>
               if schema_given response_schema then
                 (case json_loads up (clean_json_string text_response) of
                    Some v \<Rightarrow> Inr v
                  | None \<Rightarrow> Inr JNull)
               else Inr (JStr (py_strip text_response))
           | _ \<Rightarrow> Inl AttributeError)
       else Inr JNull)"

definition call_gemini_api ::
  "upstream \<Rightarrow> string \<Rightarrow> json option \<Rightarrow> outbound list \<Rightarrow> (py_error + json) \<times> outbound list"
where
  "call_gemini_api up prompt response_schema calls =
     (let payload = gemini_payload prompt response_schema;
          calls' = calls @ [GeminiCall payload]
      in case gemini_post up payload of
           ConnectionFailed \<Rightarrow> (Inr JNull, calls')
         | BadStatus status \<Rightarrow> (Inr JNull, calls')
         | InvalidBody \<Rightarrow> (Inr JNull, calls')
         | JsonBody result \<Rightarrow> (gemini_result up response_schema result, calls'))"

section \<open>The video search\<close>

text \<open>\<^verbatim>\<open>item['id']['videoId']\<close>, then \<^verbatim>\<open>item['snippet']['title']\<close>.\<close>

definition video_fields :: "json \<Rightarrow> py_error + json \<times> json" where
  "video_fields item =
     bind_err (py_item item ''id'') (\<lambda>i.
     bind_err (py_item i ''videoId'') (\<lambda>video_id.
     bind_err (py_item item ''snippet'') (\<lambda>s.
     bind_err (py_item s ''title'') (\<lambda>video_title.
     Inr (video_id, video_title)))))"

definition video_suggestion :: "upstream \<Rightarrow> json \<Rightarrow> json \<Rightarrow> json" where
  "video_suggestion up video_id video_title =
     JObj [(''title'', video_title),
           (''url'', JStr (''https://www.youtube.com/watch?v='' @ py_format up video_id))]"

definition looks_like_lecture :: "string \<Rightarrow> bool" where
  "looks_like_lecture video_title =
     (py_in ''lecture'' (py_lower video_title)
      \<or> py_in ''tutorial'' (py_lower video_title)
      \<or> py_in ''course'' (py_lower video_title))"

text \<open>The \<^verbatim>\<open>for\<close> loop: \<open>None\<close> when it ends without a \<^verbatim>\<open>return\<close>.\<close>

fun scan_items :: "upstream \<Rightarrow> json list \<Rightarrow> py_error + json option" where
  "scan_items up [] = Inr None"
| "scan_items up (item # rest) =
     (case video_fields item of
        Inl e \<Rightarrow> Inl e
      | Inr (video_id, video_title) \<Rightarrow>
          (case video_title of
             JStr t \<Rightarrow>
               if looks_like_lecture t then Inr (Some (video_suggestion up video_id video_title))
               else scan_items up rest
           | _ \<Rightarrow> Inl AttributeError))"

text \<open>The body of the \<^verbatim>\<open>try\<close> once the search response has decoded.\<close>

definition pick_video :: "upstream \<Rightarrow> json \<Rightarrow> py_error + json" where
  "pick_video up results =
     (if \<not> truthy results then Inr JNull
      else
        bind_err (py_get results ''items'' JNull) (\<lambda>its.
          if \<not> truthy its then Inr JNull
          else
            bind_err (py_item results ''items'') (\<lambda>items.
            bind_err (py_iter items) (\<lambda>item_list.
            bind_err (scan_items up item_list) (\<lambda>found.
              case found of
                Some suggestion \<Rightarrow> Inr suggestion
              | None \<Rightarrow>
                  bind_err (py_item results ''items'') (\<lambda>items'.
                  bind_err (py_index items' 0) (\<lambda>first_item.
                  bind_err (video_fields first_item) (\<lambda>(video_id, video_title).
                  Inr (video_suggestion up video_id video_title)))))))))"

text \<open>
  Every exception is caught here (\<^verbatim>\<open>except Exception\<close>), so the function returns a
  suggestion or \<^verbatim>\<open>None\<close>.
\<close>

definition search_youtube_videos ::
  "upstream \<Rightarrow> string \<Rightarrow> outbound list \<Rightarrow> json \<times> outbound list"
where
  "search_youtube_videos up query calls =
     (let calls' = calls @ [YoutubeCall query]
      in case youtube_get up query of
           JsonBody results \<Rightarrow>
             (case pick_video up results of Inr v \<Rightarrow> (v, calls') | Inl e \<Rightarrow> (JNull, calls'))
         | ConnectionFailed \<Rightarrow> (JNull, calls')
         | BadStatus status \<Rightarrow> (JNull, calls')
         | InvalidBody \<Rightarrow> (JNull, calls'))"

section \<open>Prompts and response schemas\<close>

definition title_prompt :: "string \<Rightarrow> string" where
  \<open>title_prompt syllabus_text =
     ''From the following syllabus text, identify and extract the main course title or syllabus title. Respond with only the title string. If no clear title is found, respond with "Unknown Course".\<newline>\<newline>Syllabus:\<newline>'' @
     syllabus_text @
     ''\<newline>''\<close>

definition topics_prompt :: "string \<Rightarrow> string" where
  \<open>topics_prompt syllabus_text =
     ''Extract key academic topics or subjects from the following syllabus text. Focus on main, distinct topics that someone would learn about. Return them as a JSON array of objects, where each object has a single key 'topic'. Do not include introductory phrases like 'introduction to' or 'basics of' unless the topic specifically requires it for clarity.\<newline>                \<newline>Syllabus:\<newline>'' @
     syllabus_text @
     ''\<newline>''\<close>

definition search_query :: "string \<Rightarrow> string" where
  \<open>search_query topic =
     topic @
     '' academic lecture full course tutorial explanation''\<close>

definition video_prompt :: "string \<Rightarrow> string" where
  \<open>video_prompt topic =
     ''For the academic topic "'' @
     topic @
     ''", suggest a plausible YouTube video title and a realistic YouTube URL. The URL should follow the format 'https://www.youtube.com/watch?v=xxxxxxxxxxx' where 'xxxxxxxxxxx' is a valid-looking YouTube video ID (e.g., 11 characters, alphanumeric). Prioritize topics that are likely to have educational content. Ensure the video title is concise and directly related to the topic. Return the response as a JSON object with 'title' and 'url' keys.\<newline>\<newline>Example:\<newline>{\<newline>  "title": "Introduction to Python Programming Tutorial",\<newline>  "url": "https://www.youtube.com/watch?v=rfscVS0vtbw"\<newline>}\<newline>\<newline>Topic: '' @
     topic @
     ''\<newline>''\<close>

definition notes_prompt :: "string \<Rightarrow> string" where
  \<open>notes_prompt topic =
     ''Provide concise, well-structured, and comprehensive notes for the academic topic: "'' @
     topic @
     ''".\<newline>    Format the notes using Markdown. Ensure clear headings and subheadings, use bullet points for lists,\<newline>    and include blank lines between paragraphs and sections for excellent readability and proper spacing.\<newline>    Focus on essential concepts, definitions, and important facts.\<newline>    ''\<close>

definition flashcards_prompt :: "string \<Rightarrow> string" where
  \<open>flashcards_prompt topic =
     ''Generate 5-7 distinct flashcards (question/answer pairs) for the academic topic: "'' @
     topic @
     ''".\<newline>    Each flashcard should be an object with a 'front' (question) and 'back' (answer) key.\<newline>    Return them as a JSON array of objects.\<newline>\<newline>    Example format:\<newline>    [\<newline>      { "front": "What is Python?", "back": "A high-level, interpreted programming language." },\<newline>      { "front": "Key features of Python?", "back": "Readability, extensive libraries, dynamic typing, etc." }\<newline>    ]\<newline>    ''\<close>

definition questions_prompt :: "string \<Rightarrow> string" where
  \<open>questions_prompt topic =
     ''Generate 3-5 important subjective (open-ended) questions for the academic topic: "'' @
     topic @
     ''".\<newline>    These questions should encourage critical thinking and deeper understanding.\<newline>    Return them as a JSON array of strings.\<newline>\<newline>    Example format:\<newline>    [\<newline>      "Discuss the implications of X on Y.",\<newline>      "Compare and contrast A and B, providing relevant examples."\<newline>    ]\<newline>    ''\<close>

definition topics_schema :: json where
  "topics_schema =
     JObj [(''type'', JStr ''ARRAY''),
           (''items'',
            JObj [(''type'', JStr ''OBJECT''),
                  (''properties'', JObj [(''topic'', JObj [(''type'', JStr ''STRING'')])]),
                  (''propertyOrdering'', JArr [JStr ''topic''])])]"

definition video_schema :: json where
  "video_schema =
     JObj [(''type'', JStr ''OBJECT''),
           (''properties'',
            JObj [(''title'', JObj [(''type'', JStr ''STRING'')]),
                  (''url'', JObj [(''type'', JStr ''STRING'')])]),
           (''propertyOrdering'', JArr [JStr ''title'', JStr ''url''])]"

definition flashcards_schema :: json where
  "flashcards_schema =
     JObj [(''type'', JStr ''ARRAY''),
           (''items'',
            JObj [(''type'', JStr ''OBJECT''),
                  (''properties'',
                   JObj [(''front'', JObj [(''type'', JStr ''STRING'')]),
                         (''back'', JObj [(''type'', JStr ''STRING'')])]),
                  (''propertyOrdering'', JArr [JStr ''front'', JStr ''back''])])]"

definition questions_schema :: json where
  "questions_schema =
     JObj [(''type'', JStr ''ARRAY''), (''items'', JObj [(''type'', JStr ''STRING'')])]"

section \<open>The routes\<close>

text \<open>
  A route takes the decoded request body (\<^verbatim>\<open>request.get_json()\<close>) and returns the
  status and the body that \<^verbatim>\<open>jsonify\<close> sends, or the exception it lets through (Flask
  then answers 500 without a JSON body), together with the outbound requests it made.
\<close>

type_synonym response = "nat \<times> json"

definition error_body :: "string \<Rightarrow> json" where
  "error_body msg = JObj [(''error'', JStr msg)]"

definition extract_title_route :: "upstream \<Rightarrow> json \<Rightarrow> (py_error + response) \<times> outbound list" where
  "extract_title_route up data =
     (case py_get data ''syllabus_text'' (JStr []) of
        Inl e \<Rightarrow> (Inl e, [])
      | Inr syllabus_text \<Rightarrow>
          if \<not> truthy syllabus_text then (Inr (400, error_body ''Syllabus text is required''), [])
          else
            (case call_gemini_api up (title_prompt (py_format up syllabus_text)) None [] of
               (Inl e, calls) \<Rightarrow> (Inl e, calls)
             | (Inr title, calls) \<Rightarrow> (Inr (200, JObj [(''title'', title)]), calls)))"

text \<open>
  \<^verbatim>\<open>[item.get('topic') for item in topics_raw if item.get('topic')]\<close>
\<close>

fun topics_of :: "json list \<Rightarrow> py_error + json list" where
  "topics_of [] = Inr []"
| "topics_of (item # rest) =
     (case py_get item ''topic'' JNull of
        Inl e \<Rightarrow> Inl e
      | Inr t \<Rightarrow>
          (case topics_of rest of
             Inl e \<Rightarrow> Inl e
           | Inr ts \<Rightarrow> Inr (if truthy t then t # ts else ts)))"

definition normalize_topics :: "json \<Rightarrow> py_error + json list" where
  "normalize_topics topics_raw =
     (if truthy topics_raw then bind_err (py_iter topics_raw) topics_of else Inr [])"

definition extract_topics_route :: "upstream \<Rightarrow> json \<Rightarrow> (py_error + response) \<times> outbound list" where
  "extract_topics_route up data =
     (case py_get data ''syllabus_text'' (JStr []) of
        Inl e \<Rightarrow> (Inl e, [])
      | Inr syllabus_text \<Rightarrow>
          if \<not> truthy syllabus_text then (Inr (400, error_body ''Syllabus text is required''), [])
          else
            (case call_gemini_api up (topics_prompt (py_format up syllabus_text))
                    (Some topics_schema) [] of
               (Inl e, calls) \<Rightarrow> (Inl e, calls)
             | (Inr topics_raw, calls) \<Rightarrow>
                 (case normalize_topics topics_raw of
                    Inl e \<Rightarrow> (Inl e, calls)
                  | Inr topics \<Rightarrow> (Inr (200, JObj [(''topics'', JArr topics)]), calls))))"

definition failed_video :: json where
  "failed_video = JObj [(''title'', JStr ''Failed to suggest video''), (''url'', JStr ''#'')]"

definition suggest_video_route :: "upstream \<Rightarrow> json \<Rightarrow> (py_error + response) \<times> outbound list" where
  "suggest_video_route up data =
     (case py_get data ''topic'' (JStr []) of
        Inl e \<Rightarrow> (Inl e, [])
      | Inr topic \<Rightarrow>
          if \<not> truthy topic then (Inr (400, error_body ''Topic is required''), [])
          else
            (case search_youtube_videos up (search_query (py_format up topic)) [] of
               (video_info, calls) \<Rightarrow>
                 if truthy video_info then
                   (bind_err (py_item video_info ''title'') (\<lambda>title.
                    bind_err (py_item video_info ''url'') (\<lambda>url.
                    Inr (200, JObj [(''title'', title), (''url'', url)]))), calls)
                 else
                   (case call_gemini_api up (video_prompt (py_format up topic))
                           (Some video_schema) calls of
                      (Inl e, calls') \<Rightarrow> (Inl e, calls')
                    | (Inr generated_video_info, calls') \<Rightarrow>
                        if truthy generated_video_info then
                          (bind_err (py_get generated_video_info ''title'' JNull) (\<lambda>title.
                           bind_err (py_get generated_video_info ''url'' JNull) (\<lambda>url.
                           Inr (200, JObj [(''title'', title), (''url'', url)]))), calls')
                        else (Inr (200, failed_video), calls'))))"

definition notes_fallback :: string where
  "notes_fallback = ''Could not generate notes for this topic.''"

definition generate_notes_route :: "upstream \<Rightarrow> json \<Rightarrow> (py_error + response) \<times> outbound list" where
  "generate_notes_route up data =
     (case py_get data ''topic'' (JStr []) of
        Inl e \<Rightarrow> (Inl e, [])
      | Inr topic \<Rightarrow>
          if \<not> truthy topic then (Inr (400, error_body ''Topic is required''), [])
          else
            (case call_gemini_api up (notes_prompt (py_format up topic)) None [] of
               (Inl e, calls) \<Rightarrow> (Inl e, calls)
             | (Inr notes, calls) \<Rightarrow>
                 (Inr (200, JObj [(''notes'', if truthy notes then notes else JStr notes_fallback)]),
                  calls)))"

definition generate_flashcards_route ::
  "upstream \<Rightarrow> json \<Rightarrow> (py_error + response) \<times> outbound list"
where
  "generate_flashcards_route up data =
     (case py_get data ''topic'' (JStr []) of
        Inl e \<Rightarrow> (Inl e, [])
      | Inr topic \<Rightarrow>
          if \<not> truthy topic then (Inr (400, error_body ''Topic is required''), [])
          else
            (case call_gemini_api up (flashcards_prompt (py_format up topic))
                    (Some flashcards_schema) [] of
               (Inl e, calls) \<Rightarrow> (Inl e, calls)
             | (Inr flashcards, calls) \<Rightarrow>
                 (Inr (200, JObj [(''flashcards'', if truthy flashcards then flashcards else JArr [])]),
                  calls)))"

definition generate_questions_route ::
  "upstream \<Rightarrow> json \<Rightarrow> (py_error + response) \<times> outbound list"
where
  "generate_questions_route up data =
     (case py_get data ''topic'' (JStr []) of
        Inl e \<Rightarrow> (Inl e, [])
      | Inr topic \<Rightarrow>
          if \<not> truthy topic then (Inr (400, error_body ''Topic is required''), [])
          else
            (case call_gemini_api up (questions_prompt (py_format up topic))
                    (Some questions_schema) [] of
               (Inl e, calls) \<Rightarrow> (Inl e, calls)
             | (Inr questions, calls) \<Rightarrow>
                 (Inr (200, JObj [(''questions'', if truthy questions then questions else JArr [])]),
                  calls)))"

section \<open>Notions used in the statements\<close>

text \<open>The number of places of a text where a marker stands.\<close>

fun occurrences :: "string \<Rightarrow> string \<Rightarrow> nat" where
  "occurrences m [] = (if m = [] then 1 else 0)"
| "occurrences m (c # cs) = (if prefix m (c # cs) then 1 else 0) + occurrences m cs"

text \<open>The value of a key of a dict, \<^verbatim>\<open>None\<close> when the key is missing.\<close>

definition lookup :: "(string \<times> json) list \<Rightarrow> string \<Rightarrow> json" where
  "lookup kvs k = (case map_of kvs k of Some v \<Rightarrow> v | None \<Rightarrow> JNull)"

text \<open>The \<^verbatim>\<open>topic\<close> of an entry of the upstream list, \<^verbatim>\<open>None\<close> when it has none.\<close>

definition topic_of :: "json \<Rightarrow> json" where
  "topic_of item = (case item of JObj kvs \<Rightarrow> lookup kvs ''topic'' | _ \<Rightarrow> JNull)"

text \<open>
  A decoded response of the completion endpoint with one candidate of one part, and the
  part that carries a text.
\<close>

definition completion_body :: "json \<Rightarrow> json" where
  "completion_body part =
     JObj [(''candidates'',
            JArr [JObj [(''content'', JObj [(''parts'', JArr [part]), (''role'', JStr ''model'')]),
                        (''finishReason'', JStr ''STOP'')]])]"

definition text_part :: "string \<Rightarrow> json" where
  "text_part text = JObj [(''text'', JStr text)]"

text \<open>One item of a decoded search response.\<close>

definition search_item :: "string \<Rightarrow> string \<Rightarrow> json" where
  "search_item video_id title =
     JObj [(''id'', JObj [(''kind'', JStr ''youtube#video''), (''videoId'', JStr video_id)]),
           (''snippet'', JObj [(''title'', JStr title)])]"

text \<open>
  Of candidates given as pairs of video id and title: the first whose title looks like a
  lecture, and the first of all when there is none.
\<close>

definition selected :: "(string \<times> string) list \<Rightarrow> string \<times> string" where
  "selected candidates =
     (case find (\<lambda>(video_id, title). looks_like_lecture title) candidates of
        Some c \<Rightarrow> c
      | None \<Rightarrow> hd candidates)"

text \<open>
  Services that answer every request alike: the completion endpoint with one outcome, the
  search with another, and a given \<^verbatim>\<open>json.loads\<close>.
\<close>

definition canned :: "http_outcome \<Rightarrow> http_outcome \<Rightarrow> (string \<Rightarrow> json option) \<Rightarrow> upstream" where
  "canned completion search loads =
     \<lparr>gemini_post = (\<lambda>payload. completion), youtube_get = (\<lambda>query. search),
      json_loads = loads, py_str = (\<lambda>v. [])\<rparr>"

section \<open>Facts about the string operations\<close>

lemma py_in_sublist: "py_in needle s \<longleftrightarrow> sublist needle s"
  by (induction s) (auto simp: sublist_Cons_right)

lemma py_replace_skip:
  "old \<noteq> [] \<Longrightarrow> \<not> prefix old (c # cs) \<Longrightarrow> py_replace old new (c # cs) = c # py_replace old new cs"
  by simp

lemma occurrences_skip:
  "\<not> prefix m (c # cs) \<Longrightarrow> occurrences m (c # cs) = occurrences m cs"
  by simp

lemma occurrences_pos: "m \<noteq> [] \<Longrightarrow> sublist m t \<longleftrightarrow> 0 < occurrences m t"
  by (induction t) (auto simp: sublist_Cons_right)

lemma py_strip_length_le: "length (py_strip s) \<le> length s"
proof -
  have "length (dropWhile py_isspace (rev (dropWhile py_isspace s)))
          \<le> length (rev (dropWhile py_isspace s))"
    by (rule length_dropWhile_le)
  also have "\<dots> \<le> length s" by (simp add: length_dropWhile_le)
  finally show ?thesis by (simp add: py_strip_def)
qed

text \<open>
  Replacing in \<open>p @ z\<close> is replacing in \<open>p\<close> and in \<open>z\<close>, when no occurrence of the
  marker starts in \<open>p\<close> and ends in \<open>z\<close>.
\<close>

lemma py_replace_append:
  assumes "old \<noteq> []"
    and "\<And>q. q \<noteq> [] \<Longrightarrow> suffix q p \<Longrightarrow> prefix old (q @ z) \<Longrightarrow> prefix old q"
  shows "py_replace old [] (p @ z) = py_replace old [] p @ py_replace old [] z"
  using assms(2)
proof (induction p rule: length_induct)
  case (1 p)
  show ?case
  proof (cases p)
    case Nil
    with assms(1) show ?thesis by simp
  next
    case (Cons c cs)
    show ?thesis
    proof (cases "prefix old (c # cs)")
      case True
      then have len: "length old \<le> Suc (length cs)"
        by (auto dest: prefix_length_le)
      have pz: "prefix old (c # cs @ z)"
        using True by (metis append_Cons prefix_prefix)
      let ?r = "drop (length old - 1) cs"
      have "suffix ?r p" unfolding Cons by (simp add: suffix_drop suffix_ConsI)
      then have span: "\<And>q. q \<noteq> [] \<Longrightarrow> suffix q ?r \<Longrightarrow> prefix old (q @ z) \<Longrightarrow> prefix old q"
        using "1.prems" suffix_order.trans by blast
      have "length ?r < length p" unfolding Cons by simp
      then have "py_replace old [] (?r @ z) = py_replace old [] ?r @ py_replace old [] z"
        using "1.IH" span by blast
      moreover have "drop (length old - 1) (cs @ z) = ?r @ z"
        using len by simp
      ultimately show ?thesis
        using True pz assms(1) unfolding Cons by simp
    next
      case False
      have "suffix (c # cs) p" unfolding Cons by simp
      then have npz: "\<not> prefix old (c # cs @ z)"
        using "1.prems" [of "c # cs"] False by auto
      have "suffix cs p" unfolding Cons by (simp add: suffix_ConsI)
      then have span: "\<And>q. q \<noteq> [] \<Longrightarrow> suffix q cs \<Longrightarrow> prefix old (q @ z) \<Longrightarrow> prefix old q"
        using "1.prems" suffix_order.trans by blast
      have "py_replace old [] (cs @ z) = py_replace old [] cs @ py_replace old [] z"
        using "1.IH" span unfolding Cons by simp
      then show ?thesis
        using False npz assms(1) unfolding Cons by simp
    qed
  qed
qed

subsection \<open>The two fence markers\<close>

lemma prefixes_of_closing_fence:
  \<open>prefix us ''\<newline>```'' \<longleftrightarrow>
     us = [] \<or> us = ''\<newline>'' \<or> us = ''\<newline>`'' \<or> us = ''\<newline>``'' \<or> us = ''\<newline>```''\<close>
  by (auto simp: prefix_Cons)

text \<open>
  An opening marker can end in a closing marker that follows the text only by its last
  character, the newline.
\<close>

lemma opening_fence_spans:
  assumes \<open>prefix ''```json\<newline>'' (q @ ''\<newline>```'')\<close> and \<open>\<not> prefix ''```json\<newline>'' q\<close>
  shows \<open>q = ''```json''\<close>
proof -
  from assms obtain us where us: \<open>''```json\<newline>'' = q @ us\<close> \<open>prefix us ''\<newline>```''\<close>
    by (auto simp: prefix_append)
  from us(1) have r: \<open>rev ''```json\<newline>'' = rev us @ rev q\<close>
    by (metis rev_append)
  from assms(2) us(1) have "us \<noteq> []" by auto
  with us(2) consider \<open>us = ''\<newline>''\<close> | \<open>us = ''\<newline>`''\<close> | \<open>us = ''\<newline>``''\<close> | \<open>us = ''\<newline>```''\<close>
    unfolding prefixes_of_closing_fence by blast
  then show ?thesis
  proof cases
    case 1
    with r have \<open>rev q = rev ''```json''\<close> by simp
    then show ?thesis by (metis rev_rev_ident)
  qed (use r in simp_all)
qed

lemma closing_fence_never_spans:
  assumes \<open>prefix ''\<newline>```'' (q @ ''\<newline>```'')\<close> and "q \<noteq> []"
  shows \<open>prefix ''\<newline>```'' q\<close>
proof (rule ccontr)
  assume n: \<open>\<not> prefix ''\<newline>```'' q\<close>
  with assms obtain us where us: \<open>''\<newline>```'' = q @ us\<close> \<open>prefix us ''\<newline>```''\<close>
    by (auto simp: prefix_append)
  from us(1) have r: \<open>rev ''\<newline>```'' = rev us @ rev q\<close>
    by (metis rev_append)
  from n us(1) have "us \<noteq> []" by auto
  with us(2) consider \<open>us = ''\<newline>''\<close> | \<open>us = ''\<newline>`''\<close> | \<open>us = ''\<newline>``''\<close> | \<open>us = ''\<newline>```''\<close>
    unfolding prefixes_of_closing_fence by blast
  then show False
    using r assms(2) by cases simp_all
qed

lemma replace_opening_at_start:
  \<open>py_replace ''```json\<newline>'' [] (''```json\<newline>'' @ s) = py_replace ''```json\<newline>'' [] s\<close>
  by simp

lemma replace_opening_before_closing:
  assumes \<open>\<not> suffix ''```json'' p\<close>
  shows \<open>py_replace ''```json\<newline>'' [] (p @ ''\<newline>```'') = py_replace ''```json\<newline>'' [] p @ ''\<newline>```''\<close>
proof -
  have \<open>py_replace ''```json\<newline>'' [] (p @ ''\<newline>```'') =
        py_replace ''```json\<newline>'' [] p @ py_replace ''```json\<newline>'' [] ''\<newline>```''\<close>
  proof (rule py_replace_append)
    fix q
    assume "q \<noteq> []" "suffix q p" \<open>prefix ''```json\<newline>'' (q @ ''\<newline>```'')\<close>
    show \<open>prefix ''```json\<newline>'' q\<close>
    proof (rule ccontr)
      assume \<open>\<not> prefix ''```json\<newline>'' q\<close>
      then have \<open>q = ''```json''\<close>
        using \<open>prefix ''```json\<newline>'' (q @ ''\<newline>```'')\<close> opening_fence_spans by blast
      with \<open>suffix q p\<close> assms show False by simp
    qed
  qed simp
  then show ?thesis by simp
qed

lemma replace_closing_at_end:
  \<open>py_replace ''\<newline>```'' [] (q @ ''\<newline>```'') = py_replace ''\<newline>```'' [] q\<close>
proof -
  have \<open>py_replace ''\<newline>```'' [] (q @ ''\<newline>```'') =
        py_replace ''\<newline>```'' [] q @ py_replace ''\<newline>```'' [] ''\<newline>```''\<close>
    by (rule py_replace_append) (auto intro: closing_fence_never_spans)
  then show ?thesis by simp
qed

lemma fenced_clean:
  assumes \<open>\<not> suffix ''```json'' p\<close>
  shows \<open>clean_json_string (''```json\<newline>'' @ p @ ''\<newline>```'') = clean_json_string p\<close>
  unfolding clean_json_string_def
  using replace_opening_at_start [of \<open>p @ ''\<newline>```''\<close>] replace_opening_before_closing [OF assms]
        replace_closing_at_end [of \<open>py_replace ''```json\<newline>'' [] p\<close>]
  by simp

text \<open>
  Each replacement shortens the text by the length of its marker for every place where the
  marker stands: no two occurrences of one marker overlap, so the scan from the left meets
  them all.
\<close>

lemma opening_fence_count:
  \<open>length (py_replace ''```json\<newline>'' [] t) + 8 * occurrences ''```json\<newline>'' t = length t\<close>
proof (induction t rule: length_induct)
  case (1 t)
  show ?case
  proof (cases t)
    case Nil
    then show ?thesis by simp
  next
    case (Cons c cs)
    show ?thesis
    proof (cases \<open>prefix ''```json\<newline>'' t\<close>)
      case True
      then obtain r where r: \<open>t = ''```json\<newline>'' @ r\<close>
        by (auto simp: prefix_def)
      have "length r < length t" using r by simp
      then have \<open>length (py_replace ''```json\<newline>'' [] r) + 8 * occurrences ''```json\<newline>'' r = length r\<close>
        using "1.IH" by blast
      then show ?thesis unfolding r by simp
    next
      case False
      then have np: \<open>\<not> prefix ''```json\<newline>'' (c # cs)\<close> unfolding Cons .
      have a: \<open>py_replace ''```json\<newline>'' [] (c # cs) = c # py_replace ''```json\<newline>'' [] cs\<close>
        by (rule py_replace_skip [OF _ np]) simp
      have b: \<open>occurrences ''```json\<newline>'' (c # cs) = occurrences ''```json\<newline>'' cs\<close>
        by (rule occurrences_skip [OF np])
      have "length cs < length t" using Cons by simp
      then have \<open>length (py_replace ''```json\<newline>'' [] cs) + 8 * occurrences ''```json\<newline>'' cs = length cs\<close>
        using "1.IH" by blast
      then show ?thesis unfolding Cons a b by simp
    qed
  qed
qed

lemma closing_fence_count:
  \<open>length (py_replace ''\<newline>```'' [] t) + 4 * occurrences ''\<newline>```'' t = length t\<close>
proof (induction t rule: length_induct)
  case (1 t)
  show ?case
  proof (cases t)
    case Nil
    then show ?thesis by simp
  next
    case (Cons c cs)
    show ?thesis
    proof (cases \<open>prefix ''\<newline>```'' t\<close>)
      case True
      then obtain r where r: \<open>t = ''\<newline>```'' @ r\<close>
        by (auto simp: prefix_def)
      have "length r < length t" using r by simp
      then have \<open>length (py_replace ''\<newline>```'' [] r) + 4 * occurrences ''\<newline>```'' r = length r\<close>
        using "1.IH" by blast
      then show ?thesis unfolding r by simp
    next
      case False
      then have np: \<open>\<not> prefix ''\<newline>```'' (c # cs)\<close> unfolding Cons .
      have a: \<open>py_replace ''\<newline>```'' [] (c # cs) = c # py_replace ''\<newline>```'' [] cs\<close>
        by (rule py_replace_skip [OF _ np]) simp
      have b: \<open>occurrences ''\<newline>```'' (c # cs) = occurrences ''\<newline>```'' cs\<close>
        by (rule occurrences_skip [OF np])
      have "length cs < length t" using Cons by simp
      then have \<open>length (py_replace ''\<newline>```'' [] cs) + 4 * occurrences ''\<newline>```'' cs = length cs\<close>
        using "1.IH" by blast
      then show ?thesis unfolding Cons a b by simp
    qed
  qed
qed

section \<open>Startup checks\<close>

text \<open>
  Claim C8. When either key is absent from the environment, the module-level code ends
  the process with status 1 and never reaches the point where the application serves.
  The lines it has printed are those of a key that is unset: the first names the
  variable, the third says where to get a key.
\<close>

theorem startup_exits_without_keys:
  assumes "env ''GOOGLE_API_KEY'' = None \<or> env ''YOUTUBE_API_KEY'' = None"
  shows "snd (startup env) = Exited 1
    \<and> (fst (startup env) = google_key_missing \<and> unset (env ''GOOGLE_API_KEY'')
       \<or> fst (startup env) = youtube_key_missing \<and> unset (env ''YOUTUBE_API_KEY''))
    \<and> sublist ''GOOGLE_API_KEY'' (google_key_missing ! 0)
    \<and> sublist ''https://makersuite.google.com/app/apikey'' (google_key_missing ! 2)
    \<and> sublist ''YOUTUBE_API_KEY'' (youtube_key_missing ! 0)
    \<and> sublist ''console.cloud.google.com'' (youtube_key_missing ! 2)"
proof -
  have "sublist ''GOOGLE_API_KEY'' (google_key_missing ! 0)"
    unfolding py_in_sublist [symmetric] google_key_missing_def by simp
  moreover have "sublist ''https://makersuite.google.com/app/apikey'' (google_key_missing ! 2)"
    unfolding py_in_sublist [symmetric] google_key_missing_def by simp
  moreover have "sublist ''YOUTUBE_API_KEY'' (youtube_key_missing ! 0)"
    unfolding py_in_sublist [symmetric] youtube_key_missing_def by simp
  moreover have "sublist ''console.cloud.google.com'' (youtube_key_missing ! 2)"
    unfolding py_in_sublist [symmetric] youtube_key_missing_def by simp
  moreover have "snd (startup env) = Exited 1"
    using assms by (auto simp: startup_def unset_def)
  moreover have "fst (startup env) = google_key_missing \<and> unset (env ''GOOGLE_API_KEY'')
       \<or> fst (startup env) = youtube_key_missing \<and> unset (env ''YOUTUBE_API_KEY'')"
    using assms by (auto simp: startup_def unset_def)
  ultimately show ?thesis by blast
qed

theorem startup_exits_without_keys_witness:
  "[''GOOGLE_API_KEY'' \<mapsto> ''key''] ''YOUTUBE_API_KEY'' = None
   \<and> startup [''GOOGLE_API_KEY'' \<mapsto> ''key''] = (youtube_key_missing, Exited 1)"
  using startup_exits_without_keys [of "[''GOOGLE_API_KEY'' \<mapsto> ''key'']"]
  by (simp add: startup_def unset_def)

text \<open>With both keys set the module goes on to serve, and prints nothing.\<close>

lemma startup_serving_iff:
  "snd (startup env) = Serving \<longleftrightarrow>
     \<not> unset (env ''GOOGLE_API_KEY'') \<and> \<not> unset (env ''YOUTUBE_API_KEY'')"
  by (simp add: startup_def)

section \<open>Fence stripping\<close>

lemma has_parts_body: "has_parts (completion_body part) = Inr True"
  by (simp add: has_parts_def completion_body_def bind_err_def)

lemma first_part_body: "first_part_text (completion_body part) = py_item part ''text''"
  by (simp add: first_part_text_def completion_body_def bind_err_def)

lemma gemini_result_text:
  "gemini_result up rs (completion_body (text_part text)) =
     (if schema_given rs
      then (case json_loads up (clean_json_string text) of Some v \<Rightarrow> Inr v | None \<Rightarrow> Inr JNull)
      else Inr (JStr (py_strip text)))"
  by (simp add: gemini_result_def has_parts_body first_part_body text_part_def bind_err_def)

text \<open>
  Claim C6. A structured payload \<open>p\<close> wrapped in the two fence markers is cleaned to the
  same text as \<open>p\<close> alone, so \<^verbatim>\<open>json.loads\<close>, whatever it does, is given the same text
  and the completion call returns the same value for both. The statement leaves out only
  the texts that end in the seven characters \<^verbatim>\<open>```json\<close>: there the newline of the
  closing marker completes an opening marker. No JSON document ends so (one ends in a
  bracket, a brace, a quote, a digit or the last letter of a literal).
\<close>

theorem fenced_payload_parsed_alike:
  assumes \<open>\<not> suffix ''```json'' p\<close> and "schema_given response_schema"
  shows \<open>gemini_result up response_schema
            (completion_body (text_part (''```json\<newline>'' @ p @ ''\<newline>```'')))
          = gemini_result up response_schema (completion_body (text_part p))
        \<and> gemini_result up response_schema (completion_body (text_part p))
          = (case json_loads up (clean_json_string p) of Some v \<Rightarrow> Inr v | None \<Rightarrow> Inr JNull)\<close>
  unfolding gemini_result_text using assms fenced_clean by simp

theorem fenced_payload_parsed_alike_witness:
  \<open>\<not> suffix ''```json'' ''[1]'' \<and> schema_given (Some questions_schema)
   \<and> gemini_result (canned InvalidBody InvalidBody (\<lambda>s. if s = ''[1]'' then Some (JArr [JInt 1]) else None))
        (Some questions_schema) (completion_body (text_part ''```json\<newline>[1]\<newline>```''))
     = Inr (JArr [JInt 1])\<close>
proof -
  have a: \<open>\<not> suffix ''```json'' ''[1]''\<close> by (simp add: suffix_def)
  have b: "schema_given (Some questions_schema)" by (simp add: schema_given_def questions_schema_def)
  have c: \<open>clean_json_string ''[1]'' = ''[1]''\<close>
    by (simp add: clean_json_string_def py_strip_def py_isspace_def)
  show ?thesis
    using fenced_payload_parsed_alike [OF a b,
        of "canned InvalidBody InvalidBody (\<lambda>s. if s = ''[1]'' then Some (JArr [JInt 1]) else None)"]
      a b c
    by (simp add: canned_def)
qed

text \<open>
  The texts left out above are left out for a reason: for the text \<^verbatim>\<open>1\<close>, a newline and
  \<^verbatim>\<open>```json\<close>, the fenced form is cleaned to \<^verbatim>\<open>1\<close> and the bare form to \<^verbatim>\<open>1json\<close>.
\<close>

lemma fenced_clean_needs_its_hypothesis:
  \<open>clean_json_string (''```json\<newline>'' @ ''1\<newline>```json'' @ ''\<newline>```'') = ''1''
   \<and> clean_json_string ''1\<newline>```json'' = ''1json''\<close>
  by (simp add: clean_json_string_def py_strip_def py_isspace_def)

text \<open>A text without the marker is left as it is.\<close>

lemma py_replace_no_occurrence:
  "old \<noteq> [] \<Longrightarrow> \<not> sublist old s \<Longrightarrow> py_replace old new s = s"
  by (induction s) (auto simp: sublist_Cons_right)

text \<open>
  No occurrence of a marker starts before another occurrence of it and ends inside: no
  end of a marker is a start of it.
\<close>

lemma prefixes_of_opening_fence:
  \<open>prefix a ''```json\<newline>'' \<longleftrightarrow>
     a = [] \<or> a = ''`'' \<or> a = ''``'' \<or> a = ''```'' \<or> a = ''```j'' \<or> a = ''```js''
     \<or> a = ''```jso'' \<or> a = ''```json'' \<or> a = ''```json\<newline>''\<close>
  by (auto simp: prefix_Cons)

lemma opening_fence_not_across:
  assumes "a \<noteq> []" and \<open>\<not> prefix ''```json\<newline>'' a\<close>
  shows \<open>\<not> prefix ''```json\<newline>'' (a @ ''```json\<newline>'' @ b)\<close>
proof
  assume \<open>prefix ''```json\<newline>'' (a @ ''```json\<newline>'' @ b)\<close>
  then have \<open>prefix ''```json\<newline>'' a
      \<or> (\<exists>us. ''```json\<newline>'' = a @ us \<and> prefix us (''```json\<newline>'' @ b))\<close>
    by (rule iffD1 [OF prefix_append])
  with assms(2) obtain us where us: \<open>''```json\<newline>'' = a @ us\<close> \<open>prefix us (''```json\<newline>'' @ b)\<close>
    by blast
  then have \<open>prefix a ''```json\<newline>''\<close> by (metis prefixI)
  with assms(1) consider \<open>a = ''`''\<close> | \<open>a = ''``''\<close> | \<open>a = ''```''\<close> | \<open>a = ''```j''\<close>
    | \<open>a = ''```js''\<close> | \<open>a = ''```jso''\<close> | \<open>a = ''```json''\<close> | \<open>a = ''```json\<newline>''\<close>
    unfolding prefixes_of_opening_fence by blast
  then show False
    using us assms(2) by cases auto
qed

lemma closing_fence_not_across:
  assumes "a \<noteq> []" and \<open>\<not> prefix ''\<newline>```'' a\<close>
  shows \<open>\<not> prefix ''\<newline>```'' (a @ ''\<newline>```'' @ b)\<close>
proof
  assume \<open>prefix ''\<newline>```'' (a @ ''\<newline>```'' @ b)\<close>
  then have \<open>prefix ''\<newline>```'' a
      \<or> (\<exists>us. ''\<newline>```'' = a @ us \<and> prefix us (''\<newline>```'' @ b))\<close>
    by (rule iffD1 [OF prefix_append])
  with assms(2) obtain us where us: \<open>''\<newline>```'' = a @ us\<close> \<open>prefix us (''\<newline>```'' @ b)\<close>
    by blast
  then have \<open>prefix a ''\<newline>```''\<close> by (metis prefixI)
  with assms(1) consider \<open>a = ''\<newline>''\<close> | \<open>a = ''\<newline>`''\<close> | \<open>a = ''\<newline>``''\<close> | \<open>a = ''\<newline>```''\<close>
    unfolding prefixes_of_closing_fence by blast
  then show False
    using us assms(2) by cases auto
qed

text \<open>
  So the text before the first occurrence is kept, the occurrence is deleted, and the
  replacement goes on behind it.
\<close>

lemma opening_fence_first:
  assumes \<open>\<not> sublist ''```json\<newline>'' a\<close>
  shows \<open>py_replace ''```json\<newline>'' [] (a @ ''```json\<newline>'' @ b) = a @ py_replace ''```json\<newline>'' [] b\<close>
  using assms
proof (induction a)
  case Nil
  show ?case by simp
next
  case (Cons x a)
  then have np: \<open>\<not> prefix ''```json\<newline>'' (x # a)\<close> and ns: \<open>\<not> sublist ''```json\<newline>'' a\<close>
    by (auto simp: sublist_Cons_right)
  have \<open>\<not> prefix ''```json\<newline>'' ((x # a) @ ''```json\<newline>'' @ b)\<close>
    by (rule opening_fence_not_across [OF _ np]) simp
  then have np': \<open>\<not> prefix ''```json\<newline>'' (x # (a @ ''```json\<newline>'' @ b))\<close> by simp
  have \<open>py_replace ''```json\<newline>'' [] (x # (a @ ''```json\<newline>'' @ b))
          = x # py_replace ''```json\<newline>'' [] (a @ ''```json\<newline>'' @ b)\<close>
    by (rule py_replace_skip [OF _ np']) simp
  with Cons.IH [OF ns] show ?case by simp
qed

lemma closing_fence_first:
  assumes \<open>\<not> sublist ''\<newline>```'' a\<close>
  shows \<open>py_replace ''\<newline>```'' [] (a @ ''\<newline>```'' @ b) = a @ py_replace ''\<newline>```'' [] b\<close>
  using assms
proof (induction a)
  case Nil
  show ?case by simp
next
  case (Cons x a)
  then have np: \<open>\<not> prefix ''\<newline>```'' (x # a)\<close> and ns: \<open>\<not> sublist ''\<newline>```'' a\<close>
    by (auto simp: sublist_Cons_right)
  have \<open>\<not> prefix ''\<newline>```'' ((x # a) @ ''\<newline>```'' @ b)\<close>
    by (rule closing_fence_not_across [OF _ np]) simp
  then have np': \<open>\<not> prefix ''\<newline>```'' (x # (a @ ''\<newline>```'' @ b))\<close> by simp
  have \<open>py_replace ''\<newline>```'' [] (x # (a @ ''\<newline>```'' @ b))
          = x # py_replace ''\<newline>```'' [] (a @ ''\<newline>```'' @ b)\<close>
    by (rule py_replace_skip [OF _ np']) simp
  with Cons.IH [OF ns] show ?case by simp
qed

text \<open>Both markers hold a newline.\<close>

lemma no_newline_no_fence:
  assumes \<open>CHR ''\<newline>'' \<notin> set t\<close>
  shows \<open>\<not> sublist ''```json\<newline>'' t\<close> and \<open>\<not> sublist ''\<newline>```'' t\<close>
proof -
  have \<open>CHR ''\<newline>'' \<in> set t\<close> if \<open>sublist ''```json\<newline>'' t\<close>
    using set_mono_sublist [OF that] by auto
  with assms show \<open>\<not> sublist ''```json\<newline>'' t\<close> by blast
  have \<open>CHR ''\<newline>'' \<in> set t\<close> if \<open>sublist ''\<newline>```'' t\<close>
    using set_mono_sublist [OF that] by auto
  with assms show \<open>\<not> sublist ''\<newline>```'' t\<close> by blast
qed

text \<open>
  Claim C9, as amended. Cleaning deletes every occurrence of the opening marker anywhere
  in the completion text, then every occurrence of the closing marker anywhere in the
  text that is left, then strips: each replacement keeps the text before the first
  occurrence, deletes the occurrence and goes on behind it, so the text gets shorter by
  the length of the marker for every occurrence. Consequently a completion text that
  holds one of the markers as raw characters is parsed from a shorter, different text.
  A text that holds neither marker, as every text without a raw newline, is only
  stripped.
\<close>

theorem fence_markers_deleted:
  \<open>clean_json_string t
     = py_strip (py_replace ''\<newline>```'' [] (py_replace ''```json\<newline>'' [] t))
   \<and> (\<not> sublist ''```json\<newline>'' a
        \<longrightarrow> py_replace ''```json\<newline>'' [] (a @ ''```json\<newline>'' @ b)
              = a @ py_replace ''```json\<newline>'' [] b)
   \<and> (\<not> sublist ''```json\<newline>'' t \<longrightarrow> py_replace ''```json\<newline>'' [] t = t)
   \<and> (\<not> sublist ''\<newline>```'' a
        \<longrightarrow> py_replace ''\<newline>```'' [] (a @ ''\<newline>```'' @ b) = a @ py_replace ''\<newline>```'' [] b)
   \<and> (\<not> sublist ''\<newline>```'' t \<longrightarrow> py_replace ''\<newline>```'' [] t = t)
   \<and> length (py_replace ''```json\<newline>'' [] t) + 8 * occurrences ''```json\<newline>'' t = length t
   \<and> length (py_replace ''\<newline>```'' [] (py_replace ''```json\<newline>'' [] t))
       + 4 * occurrences ''\<newline>```'' (py_replace ''```json\<newline>'' [] t)
     = length (py_replace ''```json\<newline>'' [] t)
   \<and> (sublist ''```json\<newline>'' t \<or> sublist ''\<newline>```'' t
        \<longrightarrow> length (clean_json_string t) < length t \<and> clean_json_string t \<noteq> t)
   \<and> (\<not> sublist ''```json\<newline>'' t \<and> \<not> sublist ''\<newline>```'' t
        \<longrightarrow> clean_json_string t = py_strip t)
   \<and> (CHR ''\<newline>'' \<notin> set t \<longrightarrow> clean_json_string t = py_strip t)\<close>
proof -
  let ?a = \<open>py_replace ''```json\<newline>'' [] t\<close>
  let ?b = \<open>py_replace ''\<newline>```'' [] ?a\<close>
  have order: "clean_json_string t = py_strip ?b"
    by (simp add: clean_json_string_def)
  have o_first: \<open>py_replace ''```json\<newline>'' [] (a @ ''```json\<newline>'' @ b)
              = a @ py_replace ''```json\<newline>'' [] b\<close> if \<open>\<not> sublist ''```json\<newline>'' a\<close>
    using that by (rule opening_fence_first)
  have o_none: "?a = t" if \<open>\<not> sublist ''```json\<newline>'' t\<close>
    using that by (simp add: py_replace_no_occurrence)
  have c_first: \<open>py_replace ''\<newline>```'' [] (a @ ''\<newline>```'' @ b) = a @ py_replace ''\<newline>```'' [] b\<close>
    if \<open>\<not> sublist ''\<newline>```'' a\<close>
    using that by (rule closing_fence_first)
  have c_none: \<open>py_replace ''\<newline>```'' [] t = t\<close> if \<open>\<not> sublist ''\<newline>```'' t\<close>
    using that by (simp add: py_replace_no_occurrence)
  have o_count: \<open>length ?a + 8 * occurrences ''```json\<newline>'' t = length t\<close>
    by (rule opening_fence_count)
  have c_count: \<open>length ?b + 4 * occurrences ''\<newline>```'' ?a = length ?a\<close>
    by (rule closing_fence_count)
  have le: "length (clean_json_string t) \<le> length ?b"
    unfolding clean_json_string_def by (rule py_strip_length_le)
  have shorter: "length (clean_json_string t) < length t"
    if \<open>sublist ''```json\<newline>'' t \<or> sublist ''\<newline>```'' t\<close>
  proof (cases \<open>sublist ''```json\<newline>'' t\<close>)
    case True
    then have \<open>0 < occurrences ''```json\<newline>'' t\<close> by (simp add: occurrences_pos)
    with o_count c_count le show ?thesis by linarith
  next
    case False
    then have "?a = t" by (rule o_none)
    moreover from that False have \<open>0 < occurrences ''\<newline>```'' t\<close> by (simp add: occurrences_pos)
    ultimately show ?thesis using c_count le by simp
  qed
  have plain: "clean_json_string t = py_strip t"
    if \<open>\<not> sublist ''```json\<newline>'' t\<close> \<open>\<not> sublist ''\<newline>```'' t\<close>
    using o_none [OF that(1)] c_none [OF that(2)] by (simp add: clean_json_string_def)
  have one_line: "clean_json_string t = py_strip t" if \<open>CHR ''\<newline>'' \<notin> set t\<close>
    using plain no_newline_no_fence [OF that] by blast
  have differs: "clean_json_string t \<noteq> t"
    if \<open>sublist ''```json\<newline>'' t \<or> sublist ''\<newline>```'' t\<close>
    using shorter [OF that] by auto
  show ?thesis
    using order o_first o_none c_first c_none o_count c_count shorter differs plain one_line
    by blast
qed

text \<open>
  A fenced list inside a sentence: both markers stand in the middle and are deleted. A
  JSON document on one line is left as it is.
\<close>

theorem fence_markers_deleted_witness:
  \<open>sublist ''```json\<newline>'' ''Here:\<newline>```json\<newline>[1]\<newline>```\<newline>Done''
   \<and> clean_json_string ''Here:\<newline>```json\<newline>[1]\<newline>```\<newline>Done'' = ''Here:\<newline>[1]\<newline>Done''
   \<and> length (clean_json_string ''Here:\<newline>```json\<newline>[1]\<newline>```\<newline>Done'')
       < length ''Here:\<newline>```json\<newline>[1]\<newline>```\<newline>Done''
   \<and> CHR ''\<newline>'' \<notin> set ''["Q1?", "Q2?"]''
   \<and> clean_json_string ''["Q1?", "Q2?"]'' = ''["Q1?", "Q2?"]''\<close>
proof -
  have s: \<open>sublist ''```json\<newline>'' ''Here:\<newline>```json\<newline>[1]\<newline>```\<newline>Done''\<close>
    unfolding py_in_sublist [symmetric] by simp
  have c: \<open>clean_json_string ''Here:\<newline>```json\<newline>[1]\<newline>```\<newline>Done'' = ''Here:\<newline>[1]\<newline>Done''\<close>
    by (simp add: clean_json_string_def py_strip_def py_isspace_def)
  have n: \<open>CHR ''\<newline>'' \<notin> set ''["Q1?", "Q2?"]''\<close> by simp
  have p: \<open>py_strip ''["Q1?", "Q2?"]'' = ''["Q1?", "Q2?"]''\<close>
    by (simp add: py_strip_def py_isspace_def)
  show ?thesis
    using fence_markers_deleted [of \<open>''Here:\<newline>```json\<newline>[1]\<newline>```\<newline>Done''\<close>]
      fence_markers_deleted [of \<open>''["Q1?", "Q2?"]''\<close>] s c n p
    by simp
qed

text \<open>
  Claim C9 as it was stated fails in its second half. The JSON document of a list whose
  one string holds the opening marker writes the newline of the marker as a backslash
  and the letter n: it holds no raw marker, is cleaned to itself, and is the text that
  \<^verbatim>\<open>json.loads\<close> gets. The first half needs its order of steps: in the text
  \<^verbatim>\<open>[1]\<close>, newline, \<^verbatim>\<open>```json\<close>, newline, the closing marker occurs once but the
  first replacement takes its backticks, and its newline stays; and deleting an
  occurrence can put together a new one, which stays.
\<close>

theorem escaped_marker_left_alone:
  \<open>sublist ''```json\<newline>'' ''a```json\<newline>b''
   \<and> clean_json_string (''["a```json'' @ [CHR 0x5C] @ ''nb"]'') = ''["a```json'' @ [CHR 0x5C] @ ''nb"]''
   \<and> gemini_result
        (canned InvalidBody InvalidBody
           (\<lambda>s. if s = ''["a```json'' @ [CHR 0x5C] @ ''nb"]''
                then Some (JArr [JStr ''a```json\<newline>b'']) else None))
        (Some questions_schema)
        (completion_body (text_part (''["a```json'' @ [CHR 0x5C] @ ''nb"]'')))
      = Inr (JArr [JStr ''a```json\<newline>b''])
   \<and> occurrences ''\<newline>```'' ''[1]\<newline>```json\<newline>'' = 1
   \<and> py_replace ''\<newline>```'' [] (py_replace ''```json\<newline>'' [] ''[1]\<newline>```json\<newline>'') = ''[1]\<newline>''
   \<and> clean_json_string ''a\<newline>\<newline>``````b'' = ''a\<newline>```b''\<close>
proof -
  have a: \<open>sublist ''```json\<newline>'' ''a```json\<newline>b''\<close>
    unfolding py_in_sublist [symmetric] by simp
  have b: \<open>clean_json_string (''["a```json'' @ [CHR 0x5C] @ ''nb"]'') = ''["a```json'' @ [CHR 0x5C] @ ''nb"]''\<close>
    by (simp add: clean_json_string_def py_strip_def py_isspace_def)
  have sg: "schema_given (Some questions_schema)"
    by (simp add: schema_given_def questions_schema_def)
  have c: \<open>gemini_result
        (canned InvalidBody InvalidBody
           (\<lambda>s. if s = ''["a```json'' @ [CHR 0x5C] @ ''nb"]''
                then Some (JArr [JStr ''a```json\<newline>b'']) else None))
        (Some questions_schema)
        (completion_body (text_part (''["a```json'' @ [CHR 0x5C] @ ''nb"]'')))
      = Inr (JArr [JStr ''a```json\<newline>b''])\<close>
    unfolding gemini_result_text b by (simp add: sg canned_def)
  have d: \<open>occurrences ''\<newline>```'' ''[1]\<newline>```json\<newline>'' = 1\<close> by simp
  have e: \<open>py_replace ''\<newline>```'' [] (py_replace ''```json\<newline>'' [] ''[1]\<newline>```json\<newline>'') = ''[1]\<newline>''\<close>
    by simp
  have f: \<open>clean_json_string ''a\<newline>\<newline>``````b'' = ''a\<newline>```b''\<close>
    by (simp add: clean_json_string_def py_strip_def py_isspace_def)
  show ?thesis using a b c d e f by blast
qed

section \<open>The completion call\<close>

lemma call_gemini_api_calls:
  "snd (call_gemini_api up prompt rs calls) = calls @ [GeminiCall (gemini_payload prompt rs)]"
  by (simp add: call_gemini_api_def Let_def split: http_outcome.split)

lemma call_gemini_api_result:
  "fst (call_gemini_api up prompt rs calls) = fst (call_gemini_api up prompt rs [])"
  by (simp add: call_gemini_api_def Let_def split: http_outcome.split)

lemma call_gemini_api_pair:
  assumes "fst (call_gemini_api up prompt rs []) = r"
  shows "call_gemini_api up prompt rs calls = (r, calls @ [GeminiCall (gemini_payload prompt rs)])"
  using assms call_gemini_api_calls [of up prompt rs calls] call_gemini_api_result [of up prompt rs calls]
  by (simp add: prod_eq_iff)

text \<open>
  What the function does catch: a failed request, an error status and a body that is not
  JSON; a response without candidates, content or parts; a text that \<^verbatim>\<open>json.loads\<close>
  rejects. All give \<^verbatim>\<open>None\<close>.
\<close>

lemma call_gemini_api_transport_failure:
  assumes "gemini_post up (gemini_payload prompt rs) = outcome"
    and "outcome = ConnectionFailed \<or> outcome = BadStatus status \<or> outcome = InvalidBody"
  shows "fst (call_gemini_api up prompt rs calls) = Inr JNull"
  using assms by (auto simp: call_gemini_api_def Let_def)

lemma call_gemini_api_missing_field:
  assumes "gemini_post up (gemini_payload prompt rs) = JsonBody result"
    and "(\<exists>kvs. result = JObj kvs \<and> \<not> truthy (lookup kvs ''candidates''))
       \<or> (\<exists>c others. result = JObj [(''candidates'', JArr (JObj c # others))]
             \<and> \<not> truthy (lookup c ''content''))
       \<or> (\<exists>ct others. result = JObj [(''candidates'', JArr (JObj [(''content'', JObj ct)] # others))]
             \<and> \<not> truthy (lookup ct ''parts''))"
  shows "fst (call_gemini_api up prompt rs calls) = Inr JNull"
  using assms
  by (auto simp: call_gemini_api_def Let_def gemini_result_def has_parts_def bind_err_def lookup_def
        split: option.splits)

lemma call_gemini_api_parse_failure:
  assumes "gemini_post up (gemini_payload prompt rs) = JsonBody (completion_body (text_part text))"
    and "schema_given rs"
    and "json_loads up (clean_json_string text) = None"
  shows "fst (call_gemini_api up prompt rs calls) = Inr JNull"
  using assms by (simp add: call_gemini_api_def Let_def gemini_result_text)

text \<open>What it does not catch: the guard never looks for the text of the first part.\<close>

lemma gemini_result_no_text:
  assumes "py_item part ''text'' = Inl e"
  shows "gemini_result up rs (completion_body part) = Inl e"
  using assms by (simp add: gemini_result_def has_parts_body first_part_body bind_err_def)

text \<open>
  Claim C4 says that every outcome of the completion call, a response whose part has no
  text among them, ends in the failure signal and that no exception leaves
  \<^verbatim>\<open>call_gemini_api\<close>. The code does not do that: for a response with candidates, content
  and parts whose first part carries no \<^verbatim>\<open>text\<close>, the subscript raises \<^verbatim>\<open>KeyError\<close>,
  which neither \<^verbatim>\<open>except\<close> clause catches, with or without a response schema.
\<close>

theorem call_gemini_api_part_without_text:
  "fst (call_gemini_api
          (canned (JsonBody (completion_body (JObj [(''inlineData'', JObj [])]))) search loads)
          prompt response_schema calls)
     = Inl KeyError"
  by (simp add: call_gemini_api_def Let_def canned_def gemini_result_no_text)

section \<open>Video selection\<close>

lemma sublist_map_iff:
  "sublist kw (map f t) \<longleftrightarrow> (\<exists>w. sublist w t \<and> map f w = kw)"
proof
  assume "sublist kw (map f t)"
  then obtain ps ss where "map f t = ps @ kw @ ss" by (auto simp: sublist_def)
  then obtain a b c where "t = a @ b @ c" "map f b = kw"
    by (auto simp: map_eq_append_conv append_eq_map_conv)
  then show "\<exists>w. sublist w t \<and> map f w = kw" by (auto simp: sublist_def)
next
  assume "\<exists>w. sublist w t \<and> map f w = kw"
  then obtain w ps ss where "t = ps @ w @ ss" "map f w = kw" by (auto simp: sublist_def)
  then have "map f t = map f ps @ kw @ map f ss" by simp
  then show "sublist kw (map f t)" unfolding sublist_def by blast
qed

text \<open>
  A title looks like a lecture when some stretch of it, put in lower case, is one of the
  three keywords: the test does not see the case of the title.
\<close>

lemma looks_like_lecture_iff:
  "looks_like_lecture title \<longleftrightarrow>
     (\<exists>w. sublist w title \<and> py_lower w \<in> {''lecture'', ''tutorial'', ''course''})"
  unfolding looks_like_lecture_def py_in_sublist py_lower_def sublist_map_iff by auto

lemma scan_items_candidates:
  assumes "list_all2 (\<lambda>item (video_id, title). video_fields item = Inr (JStr video_id, JStr title))
             items candidates"
  shows "scan_items up items =
           Inr (map_option (\<lambda>(video_id, title). video_suggestion up (JStr video_id) (JStr title))
                  (find (\<lambda>(video_id, title). looks_like_lecture title) candidates))"
  using assms
proof (induction items candidates rule: list_all2_induct)
  case Nil
  then show ?case by simp
next
  case (Cons item items c candidates)
  then show ?case by (cases c) simp
qed

lemma pick_video_candidates:
  assumes items: "py_get results ''items'' JNull = Inr (JArr items)"
    and wf: "list_all2 (\<lambda>item (video_id, title). video_fields item = Inr (JStr video_id, JStr title))
               items candidates"
    and ne: "candidates \<noteq> []"
  shows "pick_video up results =
           Inr (case selected candidates of (video_id, title) \<Rightarrow>
                  JObj [(''title'', JStr title),
                        (''url'', JStr (''https://www.youtube.com/watch?v='' @ video_id))])"
proof -
  from items obtain kvs where kvs: "results = JObj kvs" "map_of kvs ''items'' = Some (JArr items)"
    by (cases results) (auto split: option.splits)
  from wf ne have ine: "items \<noteq> []" by auto
  from kvs have t: "truthy results" by auto
  have it: "py_item results ''items'' = Inr (JArr items)" using kvs by simp
  from wf ine ne have first:
    "video_fields (hd items) = Inr (JStr (fst (hd candidates)), JStr (snd (hd candidates)))"
    by (cases items; cases candidates) auto
  have idx: "py_index (JArr items) 0 = Inr (hd items)"
    using ine by (cases items) auto
  show ?thesis
    unfolding pick_video_def
    using t items it ine idx first scan_items_candidates [OF wf, of up]
    by (auto simp: bind_err_def selected_def video_suggestion_def py_format_def
             split: option.splits prod.splits)
qed

text \<open>
  Claim C2. Let the search answer with a non-empty list of items, each with a video id
  and a title (the candidates, in the order of the response). Then
  \<^verbatim>\<open>search_youtube_videos\<close> returns the title and the watch URL of the first candidate
  whose title holds, in any case of letters, one of \<^verbatim>\<open>lecture\<close>, \<^verbatim>\<open>tutorial\<close> and
  \<^verbatim>\<open>course\<close>, and of the first candidate of the list when no title does.
\<close>

theorem video_selection:
  assumes "youtube_get up query = JsonBody results"
    and "py_get results ''items'' JNull = Inr (JArr items)"
    and "list_all2 (\<lambda>item (video_id, title). video_fields item = Inr (JStr video_id, JStr title))
           items candidates"
    and "candidates \<noteq> []"
  shows "fst (search_youtube_videos up query calls)
           = (case selected candidates of (video_id, title) \<Rightarrow>
                JObj [(''title'', JStr title),
                      (''url'', JStr (''https://www.youtube.com/watch?v='' @ video_id))])
       \<and> selected candidates
           = (case find (\<lambda>(video_id, title).
                           \<exists>w. sublist w title \<and> py_lower w \<in> {''lecture'', ''tutorial'', ''course''})
                     candidates of
                Some c \<Rightarrow> c
              | None \<Rightarrow> hd candidates)"
proof -
  have "fst (search_youtube_videos up query calls)
           = (case selected candidates of (video_id, title) \<Rightarrow>
                JObj [(''title'', JStr title),
                      (''url'', JStr (''https://www.youtube.com/watch?v='' @ video_id))])"
    using assms(1) pick_video_candidates [OF assms(2-4), of up]
    by (simp add: search_youtube_videos_def Let_def)
  moreover have "(\<lambda>(video_id :: string, title). looks_like_lecture title)
      = (\<lambda>(video_id, title). \<exists>w. sublist w title \<and> py_lower w \<in> {''lecture'', ''tutorial'', ''course''})"
    by (simp add: looks_like_lecture_iff)
  ultimately show ?thesis by (simp add: selected_def)
qed

text \<open>
  The candidates titled \<^verbatim>\<open>Intro to X\<close>, \<^verbatim>\<open>X Lecture Series\<close> and \<^verbatim>\<open>X Explained\<close>: the
  second is selected.
\<close>

theorem video_selection_witness:
  "fst (search_youtube_videos
          (canned InvalidBody
             (JsonBody (JObj [(''items'',
                JArr [search_item ''a1'' ''Intro to X'', search_item ''b2'' ''X Lecture Series'',
                      search_item ''c3'' ''X Explained''])]))
             (\<lambda>s. None))
          ''X'' [])
     = JObj [(''title'', JStr ''X Lecture Series''),
             (''url'', JStr ''https://www.youtube.com/watch?v=b2'')]"
proof -
  let ?items = "[search_item ''a1'' ''Intro to X'', search_item ''b2'' ''X Lecture Series'',
                 search_item ''c3'' ''X Explained'']"
  let ?results = "JObj [(''items'', JArr ?items)]"
  let ?up = "canned InvalidBody (JsonBody ?results) (\<lambda>s. None)"
  let ?cands = "[(''a1'', ''Intro to X''), (''b2'', ''X Lecture Series''), (''c3'', ''X Explained'')]"
  have a: "youtube_get ?up ''X'' = JsonBody ?results" by (simp add: canned_def)
  have b: "py_get ?results ''items'' JNull = Inr (JArr ?items)" by simp
  have c: "list_all2 (\<lambda>item (video_id, title). video_fields item = Inr (JStr video_id, JStr title))
             ?items ?cands"
    by (simp add: search_item_def video_fields_def bind_err_def)
  have d: "?cands \<noteq> []" by simp
  have e: "selected ?cands = (''b2'', ''X Lecture Series'')" by code_simp
  show ?thesis
    using video_selection [OF a b c d, of "[]"] e by simp
qed

text \<open>The search records its one request, and yields nothing in these cases.\<close>

lemma search_youtube_videos_pair:
  assumes "fst (search_youtube_videos up query []) = r"
  shows "search_youtube_videos up query calls = (r, calls @ [YoutubeCall query])"
  using assms
  by (auto simp: search_youtube_videos_def Let_def split: http_outcome.splits sum.splits)

lemma search_without_candidate:
  assumes "youtube_get up query = outcome"
    and "outcome = ConnectionFailed \<or> outcome = BadStatus status \<or> outcome = InvalidBody
       \<or> (\<exists>kvs. outcome = JsonBody (JObj kvs) \<and> \<not> truthy (lookup kvs ''items''))"
  shows "fst (search_youtube_videos up query calls) = JNull"
  using assms
  by (auto simp: search_youtube_videos_def Let_def pick_video_def bind_err_def lookup_def
        split: sum.splits option.splits)

section \<open>The routes\<close>

subsection \<open>Input validation\<close>

text \<open>
  A body that is a JSON object whose required field is missing, empty or otherwise falsy
  is answered 400 with an \<^verbatim>\<open>error\<close> field, and no outbound request is made.
\<close>

lemma missing_text_rejected:
  assumes "\<not> truthy (case map_of kvs ''syllabus_text'' of Some v \<Rightarrow> v | None \<Rightarrow> JStr [])"
  shows "extract_title_route up (JObj kvs) = (Inr (400, error_body ''Syllabus text is required''), [])"
    and "extract_topics_route up (JObj kvs) = (Inr (400, error_body ''Syllabus text is required''), [])"
  using assms by (simp_all add: extract_title_route_def extract_topics_route_def)

lemma missing_topic_rejected:
  assumes "\<not> truthy (case map_of kvs ''topic'' of Some v \<Rightarrow> v | None \<Rightarrow> JStr [])"
  shows "suggest_video_route up (JObj kvs) = (Inr (400, error_body ''Topic is required''), [])"
    and "generate_notes_route up (JObj kvs) = (Inr (400, error_body ''Topic is required''), [])"
    and "generate_flashcards_route up (JObj kvs) = (Inr (400, error_body ''Topic is required''), [])"
    and "generate_questions_route up (JObj kvs) = (Inr (400, error_body ''Topic is required''), [])"
  using assms
  by (simp_all add: suggest_video_route_def generate_notes_route_def generate_flashcards_route_def
        generate_questions_route_def)

text \<open>
  Claim C3 says that a request without its field is answered 400 with no outbound
  request, and that a request with its field is answered 200 whatever the upstream does.
  The first half holds for object bodies (\<open>missing_text_rejected\<close>,
  \<open>missing_topic_rejected\<close>). The second does not hold of the code: with the field
  present, a completion response whose part has no text makes \<^verbatim>\<open>extract_title\<close> raise
  \<^verbatim>\<open>KeyError\<close>, a structured payload that is a list of strings makes
  \<^verbatim>\<open>extract_topics\<close> raise \<^verbatim>\<open>AttributeError\<close>, and a body that is not an object makes
  every route raise \<^verbatim>\<open>AttributeError\<close>. None of these is answered with a JSON body.
\<close>

theorem routes_let_exceptions_through:
  \<open>fst (extract_title_route
          (canned (JsonBody (completion_body (JObj [(''inlineData'', JObj [])]))) search loads)
          (JObj [(''syllabus_text'', JStr ''Linear Algebra'')]))
     = Inl KeyError
   \<and> fst (extract_topics_route
          (canned (JsonBody (completion_body (text_part ''["Graphs", "Trees"]''))) search
             (\<lambda>s. if s = ''["Graphs", "Trees"]'' then Some (JArr [JStr ''Graphs'', JStr ''Trees''])
                  else None))
          (JObj [(''syllabus_text'', JStr ''Algorithms'')]))
     = Inl AttributeError
   \<and> fst (generate_notes_route up (JArr [])) = Inl AttributeError\<close>
proof -
  have sg: "schema_given (Some topics_schema)" by (simp add: schema_given_def topics_schema_def)
  have cl: \<open>clean_json_string ''["Graphs", "Trees"]'' = ''["Graphs", "Trees"]''\<close>
    by (simp add: clean_json_string_def py_strip_def py_isspace_def)
  have \<open>fst (extract_title_route
          (canned (JsonBody (completion_body (JObj [(''inlineData'', JObj [])]))) search loads)
          (JObj [(''syllabus_text'', JStr ''Linear Algebra'')]))
     = Inl KeyError\<close>
    by (simp add: extract_title_route_def call_gemini_api_def Let_def canned_def gemini_result_no_text)
  moreover have \<open>fst (extract_topics_route
          (canned (JsonBody (completion_body (text_part ''["Graphs", "Trees"]''))) search
             (\<lambda>s. if s = ''["Graphs", "Trees"]'' then Some (JArr [JStr ''Graphs'', JStr ''Trees''])
                  else None))
          (JObj [(''syllabus_text'', JStr ''Algorithms'')]))
     = Inl AttributeError\<close>
    by (simp add: extract_topics_route_def call_gemini_api_def Let_def canned_def
          gemini_result_text sg cl normalize_topics_def bind_err_def)
  moreover have "fst (generate_notes_route up (JArr [])) = Inl AttributeError"
    by (simp add: generate_notes_route_def)
  ultimately show ?thesis by simp
qed

subsection \<open>The video fallback\<close>

text \<open>
  When the search yields nothing, the route makes one completion request after the one
  search request. If the completion call returns an object, its \<^verbatim>\<open>title\<close> and \<^verbatim>\<open>url\<close>
  are answered with status 200; if it returns \<^verbatim>\<open>None\<close>, the fixed failure answer is.
\<close>

lemma suggest_video_fallback:
  assumes "py_get data ''topic'' (JStr []) = Inr topic" and "truthy topic"
    and "fst (search_youtube_videos up (search_query (py_format up topic)) []) = JNull"
  shows "snd (suggest_video_route up data)
           = [YoutubeCall (search_query (py_format up topic)),
              GeminiCall (gemini_payload (video_prompt (py_format up topic)) (Some video_schema))]
    \<and> (\<forall>kvs title url.
          fst (call_gemini_api up (video_prompt (py_format up topic)) (Some video_schema) [])
            = Inr (JObj kvs)
          \<and> map_of kvs ''title'' = Some title \<and> map_of kvs ''url'' = Some url
          \<longrightarrow> fst (suggest_video_route up data)
                = Inr (200, JObj [(''title'', title), (''url'', url)]))
    \<and> (fst (call_gemini_api up (video_prompt (py_format up topic)) (Some video_schema) []) = Inr JNull
          \<longrightarrow> fst (suggest_video_route up data) = Inr (200, failed_video))"
proof -
  let ?q = "search_query (py_format up topic)"
  let ?p = "video_prompt (py_format up topic)"
  have s: "search_youtube_videos up ?q [] = (JNull, [YoutubeCall ?q])"
    using search_youtube_videos_pair [OF assms(3), of "[]"] by simp
  obtain r where r: "fst (call_gemini_api up ?p (Some video_schema) []) = r" by simp
  have c: "call_gemini_api up ?p (Some video_schema) [YoutubeCall ?q]
             = (r, [YoutubeCall ?q, GeminiCall (gemini_payload ?p (Some video_schema))])"
    using call_gemini_api_pair [OF r, of "[YoutubeCall ?q]"] by simp
  show ?thesis
    using assms(1,2) s c r
    by (cases r) (auto simp: suggest_video_route_def bind_err_def)
qed

text \<open>
  Claim C5 says that, the search having found nothing, the route calls the fallback
  completion once and answers 200 either with its \<open>{title, url}\<close> result or, if the
  fallback fails too, with the fixed failure answer. The code makes the one call
  (\<open>suggest_video_fallback\<close>), but a fallback that fails by a response whose part has no
  text raises \<^verbatim>\<open>KeyError\<close> through the route, and a fallback whose payload is a list
  makes the route raise \<^verbatim>\<open>AttributeError\<close>: neither is answered with the failure answer.
\<close>

theorem suggest_video_fallback_raises:
  \<open>suggest_video_route
       (canned (JsonBody (completion_body (JObj [(''inlineData'', JObj [])]))) ConnectionFailed loads)
       (JObj [(''topic'', JStr ''Graph theory'')])
     = (Inl KeyError,
        [YoutubeCall (search_query ''Graph theory''),
         GeminiCall (gemini_payload (video_prompt ''Graph theory'') (Some video_schema))])
   \<and> fst (suggest_video_route
          (canned (JsonBody (completion_body (text_part ''[{"title": "T", "url": "U"}]'')))
             ConnectionFailed
             (\<lambda>s. if s = ''[{"title": "T", "url": "U"}]''
                  then Some (JArr [JObj [(''title'', JStr ''T''), (''url'', JStr ''U'')]]) else None))
          (JObj [(''topic'', JStr ''Graph theory'')]))
     = Inl AttributeError\<close>
proof -
  have sg: "schema_given (Some video_schema)" by (simp add: schema_given_def video_schema_def)
  have cl: \<open>clean_json_string ''[{"title": "T", "url": "U"}]'' = ''[{"title": "T", "url": "U"}]''\<close>
    by (simp add: clean_json_string_def py_strip_def py_isspace_def)
  have \<open>suggest_video_route
       (canned (JsonBody (completion_body (JObj [(''inlineData'', JObj [])]))) ConnectionFailed loads)
       (JObj [(''topic'', JStr ''Graph theory'')])
     = (Inl KeyError,
        [YoutubeCall (search_query ''Graph theory''),
         GeminiCall (gemini_payload (video_prompt ''Graph theory'') (Some video_schema))])\<close>
    by (simp add: suggest_video_route_def search_youtube_videos_def call_gemini_api_def Let_def
          canned_def gemini_result_no_text py_format_def)
  moreover have \<open>fst (suggest_video_route
          (canned (JsonBody (completion_body (text_part ''[{"title": "T", "url": "U"}]'')))
             ConnectionFailed
             (\<lambda>s. if s = ''[{"title": "T", "url": "U"}]''
                  then Some (JArr [JObj [(''title'', JStr ''T''), (''url'', JStr ''U'')]]) else None))
          (JObj [(''topic'', JStr ''Graph theory'')]))
     = Inl AttributeError\<close>
    by (simp add: suggest_video_route_def search_youtube_videos_def call_gemini_api_def Let_def
          canned_def gemini_result_text sg cl bind_err_def)
  ultimately show ?thesis by simp
qed

subsection \<open>Answers when the completion call returns the failure signal\<close>

text \<open>
  Claim C7, as amended. Whenever the completion call returns \<^verbatim>\<open>None\<close>, each route
  answers 200 with a JSON body: a \<^verbatim>\<open>null\<close> title, an empty list of topics, the fixed
  failure answer for the video (the search having found nothing), the fixed sentence for
  the notes, an empty list of flashcards, an empty list of questions.
\<close>

theorem failure_signal_fallbacks:
  "(py_get data ''syllabus_text'' (JStr []) = Inr text \<and> truthy text
      \<and> fst (call_gemini_api up (title_prompt (py_format up text)) None []) = Inr JNull
    \<longrightarrow> fst (extract_title_route up data) = Inr (200, JObj [(''title'', JNull)]))
   \<and> (py_get data ''syllabus_text'' (JStr []) = Inr text \<and> truthy text
      \<and> fst (call_gemini_api up (topics_prompt (py_format up text)) (Some topics_schema) []) = Inr JNull
    \<longrightarrow> fst (extract_topics_route up data) = Inr (200, JObj [(''topics'', JArr [])]))
   \<and> (py_get data ''topic'' (JStr []) = Inr topic \<and> truthy topic
      \<and> fst (search_youtube_videos up (search_query (py_format up topic)) []) = JNull
      \<and> fst (call_gemini_api up (video_prompt (py_format up topic)) (Some video_schema) []) = Inr JNull
    \<longrightarrow> fst (suggest_video_route up data) = Inr (200, failed_video))
   \<and> (py_get data ''topic'' (JStr []) = Inr topic \<and> truthy topic
      \<and> fst (call_gemini_api up (notes_prompt (py_format up topic)) None []) = Inr JNull
    \<longrightarrow> fst (generate_notes_route up data) = Inr (200, JObj [(''notes'', JStr notes_fallback)]))
   \<and> (py_get data ''topic'' (JStr []) = Inr topic \<and> truthy topic
      \<and> fst (call_gemini_api up (flashcards_prompt (py_format up topic)) (Some flashcards_schema) [])
          = Inr JNull
    \<longrightarrow> fst (generate_flashcards_route up data) = Inr (200, JObj [(''flashcards'', JArr [])]))
   \<and> (py_get data ''topic'' (JStr []) = Inr topic \<and> truthy topic
      \<and> fst (call_gemini_api up (questions_prompt (py_format up topic)) (Some questions_schema) [])
          = Inr JNull
    \<longrightarrow> fst (generate_questions_route up data) = Inr (200, JObj [(''questions'', JArr [])]))"
proof -
  have on_title: "fst (extract_title_route up data) = Inr (200, JObj [(''title'', JNull)])"
    if "py_get data ''syllabus_text'' (JStr []) = Inr text" "truthy text"
      "fst (call_gemini_api up (title_prompt (py_format up text)) None []) = Inr JNull"
    using that(1,2) call_gemini_api_pair [OF that(3), of "[]"]
    by (simp add: extract_title_route_def)
  have on_topics: "fst (extract_topics_route up data) = Inr (200, JObj [(''topics'', JArr [])])"
    if "py_get data ''syllabus_text'' (JStr []) = Inr text" "truthy text"
      "fst (call_gemini_api up (topics_prompt (py_format up text)) (Some topics_schema) []) = Inr JNull"
    using that(1,2) call_gemini_api_pair [OF that(3), of "[]"]
    by (simp add: extract_topics_route_def normalize_topics_def)
  have on_video: "fst (suggest_video_route up data) = Inr (200, failed_video)"
    if "py_get data ''topic'' (JStr []) = Inr topic" "truthy topic"
      "fst (search_youtube_videos up (search_query (py_format up topic)) []) = JNull"
      "fst (call_gemini_api up (video_prompt (py_format up topic)) (Some video_schema) []) = Inr JNull"
    using that(1,2) search_youtube_videos_pair [OF that(3), of "[]"]
      call_gemini_api_pair [OF that(4), of "[YoutubeCall (search_query (py_format up topic))]"]
    by (simp add: suggest_video_route_def)
  have on_notes: "fst (generate_notes_route up data) = Inr (200, JObj [(''notes'', JStr notes_fallback)])"
    if "py_get data ''topic'' (JStr []) = Inr topic" "truthy topic"
      "fst (call_gemini_api up (notes_prompt (py_format up topic)) None []) = Inr JNull"
    using that(1,2) call_gemini_api_pair [OF that(3), of "[]"]
    by (simp add: generate_notes_route_def)
  have on_flashcards: "fst (generate_flashcards_route up data) = Inr (200, JObj [(''flashcards'', JArr [])])"
    if "py_get data ''topic'' (JStr []) = Inr topic" "truthy topic"
      "fst (call_gemini_api up (flashcards_prompt (py_format up topic)) (Some flashcards_schema) [])
          = Inr JNull"
    using that(1,2) call_gemini_api_pair [OF that(3), of "[]"]
    by (simp add: generate_flashcards_route_def)
  have on_questions: "fst (generate_questions_route up data) = Inr (200, JObj [(''questions'', JArr [])])"
    if "py_get data ''topic'' (JStr []) = Inr topic" "truthy topic"
      "fst (call_gemini_api up (questions_prompt (py_format up topic)) (Some questions_schema) [])
          = Inr JNull"
    using that(1,2) call_gemini_api_pair [OF that(3), of "[]"]
    by (simp add: generate_questions_route_def)
  show ?thesis
    using on_title on_topics on_video on_notes on_flashcards on_questions by blast
qed

text \<open>Both services unreachable: the six answers.\<close>

theorem failure_signal_fallbacks_witness:
  "fst (extract_title_route (canned ConnectionFailed ConnectionFailed (\<lambda>s. None))
          (JObj [(''syllabus_text'', JStr ''Algebra''), (''topic'', JStr ''Rings'')]))
     = Inr (200, JObj [(''title'', JNull)])
   \<and> fst (extract_topics_route (canned ConnectionFailed ConnectionFailed (\<lambda>s. None))
          (JObj [(''syllabus_text'', JStr ''Algebra''), (''topic'', JStr ''Rings'')]))
     = Inr (200, JObj [(''topics'', JArr [])])
   \<and> fst (suggest_video_route (canned ConnectionFailed ConnectionFailed (\<lambda>s. None))
          (JObj [(''syllabus_text'', JStr ''Algebra''), (''topic'', JStr ''Rings'')]))
     = Inr (200, JObj [(''title'', JStr ''Failed to suggest video''), (''url'', JStr ''#'')])
   \<and> fst (generate_notes_route (canned ConnectionFailed ConnectionFailed (\<lambda>s. None))
          (JObj [(''syllabus_text'', JStr ''Algebra''), (''topic'', JStr ''Rings'')]))
     = Inr (200, JObj [(''notes'', JStr ''Could not generate notes for this topic.'')])
   \<and> fst (generate_flashcards_route (canned ConnectionFailed ConnectionFailed (\<lambda>s. None))
          (JObj [(''syllabus_text'', JStr ''Algebra''), (''topic'', JStr ''Rings'')]))
     = Inr (200, JObj [(''flashcards'', JArr [])])
   \<and> fst (generate_questions_route (canned ConnectionFailed ConnectionFailed (\<lambda>s. None))
          (JObj [(''syllabus_text'', JStr ''Algebra''), (''topic'', JStr ''Rings'')]))
     = Inr (200, JObj [(''questions'', JArr [])])"
proof -
  let ?up = "canned ConnectionFailed ConnectionFailed (\<lambda>s. None)"
  let ?data = "JObj [(''syllabus_text'', JStr ''Algebra''), (''topic'', JStr ''Rings'')]"
  have a: "py_get ?data ''syllabus_text'' (JStr []) = Inr (JStr ''Algebra'')"
    and b: "py_get ?data ''topic'' (JStr []) = Inr (JStr ''Rings'')"
    and c: "truthy (JStr ''Algebra'')" "truthy (JStr ''Rings'')" by simp_all
  have d: "fst (call_gemini_api ?up prompt rs []) = Inr JNull" for prompt rs
    by (simp add: call_gemini_api_def canned_def Let_def)
  have e: "fst (search_youtube_videos ?up query []) = JNull" for query
    by (simp add: search_youtube_videos_def canned_def)
  show ?thesis
    using failure_signal_fallbacks [of ?data "JStr ''Algebra''" ?up "JStr ''Rings''"] a b c d e
    by (simp add: failed_video_def notes_fallback_def)
qed

text \<open>
  Claim C7 as it was stated fails for the title: on the failure signal the title that is
  answered is \<^verbatim>\<open>null\<close>, which is neither an empty array nor a string.
\<close>

theorem extract_title_failure_is_null:
  "fst (extract_title_route (canned ConnectionFailed ConnectionFailed (\<lambda>s. None))
          (JObj [(''syllabus_text'', JStr ''Algebra'')]))
     = Inr (200, JObj [(''title'', JNull)])
   \<and> JNull \<noteq> JArr [] \<and> (\<forall>s. JNull \<noteq> JStr s)"
  by (simp add: extract_title_route_def call_gemini_api_def canned_def Let_def)

subsection \<open>Lists in the answers\<close>

lemma topics_of_objects:
  assumes "\<forall>item \<in> set items. \<exists>kvs. item = JObj kvs"
  shows "topics_of items = Inr (filter truthy (map topic_of items))"
  using assms by (induction items) (auto simp: topic_of_def lookup_def)

text \<open>
  Claim C1, as amended. Of a list of objects that the completion call returns,
  \<^verbatim>\<open>extract_topics\<close> answers the topics that are truthy, in order, leaving out the
  entries whose topic is missing or falsy. \<^verbatim>\<open>generate_flashcards\<close> and
  \<^verbatim>\<open>generate_questions\<close> answer the value the completion call returns as it is when it
  is truthy, entries unfiltered, and an empty list otherwise. When the completion call
  returns \<^verbatim>\<open>None\<close> all three answer an empty list, with status 200.
\<close>

theorem array_results_normalized:
  "(py_get data ''syllabus_text'' (JStr []) = Inr text \<and> truthy text
      \<and> fst (call_gemini_api up (topics_prompt (py_format up text)) (Some topics_schema) [])
          = Inr (JArr items)
      \<and> (\<forall>item \<in> set items. \<exists>kvs. item = JObj kvs)
    \<longrightarrow> fst (extract_topics_route up data)
          = Inr (200, JObj [(''topics'', JArr (filter truthy (map topic_of items)))]))
   \<and> (py_get data ''topic'' (JStr []) = Inr topic \<and> truthy topic
      \<and> fst (call_gemini_api up (flashcards_prompt (py_format up topic)) (Some flashcards_schema) [])
          = Inr v
    \<longrightarrow> fst (generate_flashcards_route up data)
          = Inr (200, JObj [(''flashcards'', if truthy v then v else JArr [])]))
   \<and> (py_get data ''topic'' (JStr []) = Inr topic \<and> truthy topic
      \<and> fst (call_gemini_api up (questions_prompt (py_format up topic)) (Some questions_schema) [])
          = Inr v
    \<longrightarrow> fst (generate_questions_route up data)
          = Inr (200, JObj [(''questions'', if truthy v then v else JArr [])]))
   \<and> (py_get data ''syllabus_text'' (JStr []) = Inr text \<and> truthy text
      \<and> fst (call_gemini_api up (topics_prompt (py_format up text)) (Some topics_schema) [])
          = Inr JNull
    \<longrightarrow> fst (extract_topics_route up data) = Inr (200, JObj [(''topics'', JArr [])]))"
proof -
  have on_topics: "fst (extract_topics_route up data)
          = Inr (200, JObj [(''topics'', JArr (filter truthy (map topic_of items)))])"
    if "py_get data ''syllabus_text'' (JStr []) = Inr text" "truthy text"
      "fst (call_gemini_api up (topics_prompt (py_format up text)) (Some topics_schema) [])
          = Inr (JArr items)"
      "\<forall>item \<in> set items. \<exists>kvs. item = JObj kvs"
    using that(1,2) call_gemini_api_pair [OF that(3), of "[]"] topics_of_objects [OF that(4)]
    by (simp add: extract_topics_route_def normalize_topics_def bind_err_def)
  have on_flashcards: "fst (generate_flashcards_route up data)
          = Inr (200, JObj [(''flashcards'', if truthy v then v else JArr [])])"
    if "py_get data ''topic'' (JStr []) = Inr topic" "truthy topic"
      "fst (call_gemini_api up (flashcards_prompt (py_format up topic)) (Some flashcards_schema) [])
          = Inr v"
    using that(1,2) call_gemini_api_pair [OF that(3), of "[]"]
    by (simp add: generate_flashcards_route_def)
  have on_questions: "fst (generate_questions_route up data)
          = Inr (200, JObj [(''questions'', if truthy v then v else JArr [])])"
    if "py_get data ''topic'' (JStr []) = Inr topic" "truthy topic"
      "fst (call_gemini_api up (questions_prompt (py_format up topic)) (Some questions_schema) [])
          = Inr v"
    using that(1,2) call_gemini_api_pair [OF that(3), of "[]"]
    by (simp add: generate_questions_route_def)
  have on_none: "fst (extract_topics_route up data) = Inr (200, JObj [(''topics'', JArr [])])"
    if "py_get data ''syllabus_text'' (JStr []) = Inr text" "truthy text"
      "fst (call_gemini_api up (topics_prompt (py_format up text)) (Some topics_schema) []) = Inr JNull"
    using that(1,2) call_gemini_api_pair [OF that(3), of "[]"]
    by (simp add: extract_topics_route_def normalize_topics_def)
  show ?thesis
    using on_topics on_flashcards on_questions on_none by blast
qed

text \<open>
  The upstream list \<^verbatim>\<open>[{"topic": "Graphs"}, {}, {"topic": "Trees"}]\<close> gives the topics
  \<^verbatim>\<open>["Graphs", "Trees"]\<close>; the questions \<^verbatim>\<open>["Q1?", "Q2?"]\<close> are answered as they are.
\<close>

theorem array_results_normalized_witness:
  \<open>fst (extract_topics_route
          (canned (JsonBody (completion_body (text_part ''[{"topic": "Graphs"}, {}, {"topic": "Trees"}]'')))
             InvalidBody
             (\<lambda>s. if s = ''[{"topic": "Graphs"}, {}, {"topic": "Trees"}]''
                  then Some (JArr [JObj [(''topic'', JStr ''Graphs'')], JObj [],
                                   JObj [(''topic'', JStr ''Trees'')]])
                  else None))
          (JObj [(''syllabus_text'', JStr ''Algorithms'')]))
     = Inr (200, JObj [(''topics'', JArr [JStr ''Graphs'', JStr ''Trees''])])
   \<and> fst (generate_questions_route
          (canned (JsonBody (completion_body (text_part ''["Q1?", "Q2?"]''))) InvalidBody
             (\<lambda>s. if s = ''["Q1?", "Q2?"]'' then Some (JArr [JStr ''Q1?'', JStr ''Q2?'']) else None))
          (JObj [(''topic'', JStr ''Thermodynamics'')]))
     = Inr (200, JObj [(''questions'', JArr [JStr ''Q1?'', JStr ''Q2?''])])\<close>
proof -
  let ?t = \<open>''[{"topic": "Graphs"}, {}, {"topic": "Trees"}]''\<close>
  let ?items = "[JObj [(''topic'', JStr ''Graphs'')], JObj [], JObj [(''topic'', JStr ''Trees'')]]"
  let ?up = "canned (JsonBody (completion_body (text_part ?t))) InvalidBody
               (\<lambda>s. if s = ?t then Some (JArr ?items) else None)"
  let ?data = "JObj [(''syllabus_text'', JStr ''Algorithms'')]"
  let ?q = \<open>''["Q1?", "Q2?"]''\<close>
  let ?up' = "canned (JsonBody (completion_body (text_part ?q))) InvalidBody
               (\<lambda>s. if s = ?q then Some (JArr [JStr ''Q1?'', JStr ''Q2?'']) else None)"
  let ?data' = "JObj [(''topic'', JStr ''Thermodynamics'')]"
  have a: "py_get ?data ''syllabus_text'' (JStr []) = Inr (JStr ''Algorithms'')"
    and a': "py_get ?data' ''topic'' (JStr []) = Inr (JStr ''Thermodynamics'')" by simp_all
  have sg: "schema_given (Some topics_schema)" "schema_given (Some questions_schema)"
    by (simp_all add: schema_given_def topics_schema_def questions_schema_def)
  have cl: "clean_json_string ?t = ?t" "clean_json_string ?q = ?q"
    by (simp_all add: clean_json_string_def py_strip_def py_isspace_def)
  have b: "fst (call_gemini_api ?up (topics_prompt (py_format ?up (JStr ''Algorithms'')))
                 (Some topics_schema) []) = Inr (JArr ?items)"
    unfolding call_gemini_api_def Let_def by (simp add: canned_def gemini_result_text sg cl)
  have b': "fst (call_gemini_api ?up' (questions_prompt (py_format ?up' (JStr ''Thermodynamics'')))
                 (Some questions_schema) []) = Inr (JArr [JStr ''Q1?'', JStr ''Q2?''])"
    unfolding call_gemini_api_def Let_def by (simp add: canned_def gemini_result_text sg cl)
  have c: "\<forall>item \<in> set ?items. \<exists>kvs. item = JObj kvs" by simp
  have d: "filter truthy (map topic_of ?items) = [JStr ''Graphs'', JStr ''Trees'']"
    by (simp add: topic_of_def lookup_def)
  have "fst (extract_topics_route ?up ?data)
          = Inr (200, JObj [(''topics'', JArr [JStr ''Graphs'', JStr ''Trees''])])"
    using array_results_normalized [of ?data "JStr ''Algorithms''" ?up ?items] a b c d by simp
  moreover have "fst (generate_questions_route ?up' ?data')
          = Inr (200, JObj [(''questions'', JArr [JStr ''Q1?'', JStr ''Q2?''])])"
    using array_results_normalized [of ?data' _ ?up' _ "JStr ''Thermodynamics''"
        "JArr [JStr ''Q1?'', JStr ''Q2?'']"] a' b'
    by simp
  ultimately show ?thesis by simp
qed

text \<open>
  Claim C1 as it was stated fails for the flashcards: an entry without its \<^verbatim>\<open>back\<close> is
  answered as it came.
\<close>

theorem flashcards_not_filtered:
  \<open>fst (generate_flashcards_route
          (canned (JsonBody (completion_body (text_part ''[{"front": "What is Python?"}]'')))
             InvalidBody
             (\<lambda>s. if s = ''[{"front": "What is Python?"}]''
                  then Some (JArr [JObj [(''front'', JStr ''What is Python?'')]]) else None))
          (JObj [(''topic'', JStr ''Python'')]))
     = Inr (200, JObj [(''flashcards'', JArr [JObj [(''front'', JStr ''What is Python?'')]])])
   \<and> map_of [(''front'', JStr ''What is Python?'')] ''back'' = None\<close>
proof -
  have sg: "schema_given (Some flashcards_schema)"
    by (simp add: schema_given_def flashcards_schema_def)
  have cl: \<open>clean_json_string ''[{"front": "What is Python?"}]'' = ''[{"front": "What is Python?"}]''\<close>
    by (simp add: clean_json_string_def py_strip_def py_isspace_def)
  show ?thesis
    by (simp add: generate_flashcards_route_def call_gemini_api_def Let_def canned_def
          gemini_result_text sg cl)
qed

lemma topics_of_truthy:
  "topics_of items = Inr topics \<Longrightarrow> \<forall>t \<in> set topics. truthy t"
  by (induction items arbitrary: topics) (auto split: sum.splits if_splits)

lemma topics_of_drops_falsy:
  "\<not> truthy (lookup kvs ''topic'') \<Longrightarrow> topics_of (JObj kvs # rest) = topics_of rest"
  by (auto simp: lookup_def split: sum.splits option.splits)

text \<open>
  Claim C10, as amended. Every element of the topics array that \<^verbatim>\<open>extract_topics\<close>
  answers is truthy: it is never the empty string, and it is a non-empty string whenever
  it is a string. An entry whose topic is present but empty, or otherwise falsy, is
  dropped exactly as an entry without the field is.
\<close>

theorem topics_are_truthy:
  assumes "fst (extract_topics_route up data) = Inr (200, body)"
  shows "(\<exists>topics. body = JObj [(''topics'', JArr topics)]
            \<and> (\<forall>t \<in> set topics. truthy t \<and> t \<noteq> JStr [] \<and> (\<forall>s. t = JStr s \<longrightarrow> s \<noteq> [])))
       \<and> (\<forall>kvs rest. \<not> truthy (lookup kvs ''topic'')
            \<longrightarrow> topics_of (JObj kvs # rest) = topics_of rest)"
proof -
  from assms obtain raw topics where n: "normalize_topics raw = Inr topics"
    and b: "body = JObj [(''topics'', JArr topics)]"
    by (auto simp: extract_topics_route_def error_body_def split: sum.splits if_splits prod.splits)
  have "\<forall>t \<in> set topics. truthy t"
  proof (cases "truthy raw")
    case True
    with n obtain items where "topics_of items = Inr topics"
      by (auto simp: normalize_topics_def bind_err_def split: sum.splits)
    then show ?thesis by (rule topics_of_truthy)
  next
    case False
    with n show ?thesis by (simp add: normalize_topics_def)
  qed
  then have "\<forall>t \<in> set topics. truthy t \<and> t \<noteq> JStr [] \<and> (\<forall>s. t = JStr s \<longrightarrow> s \<noteq> [])"
    by auto
  with b show ?thesis using topics_of_drops_falsy by blast
qed

text \<open>
  The upstream list \<^verbatim>\<open>[{"topic": "Graphs"}, {"topic": ""}, {}]\<close> gives the one topic
  \<^verbatim>\<open>Graphs\<close>.
\<close>

theorem topics_are_truthy_witness:
  \<open>fst (extract_topics_route
          (canned (JsonBody (completion_body (text_part ''[{"topic": "Graphs"}, {"topic": ""}, {}]'')))
             InvalidBody
             (\<lambda>s. if s = ''[{"topic": "Graphs"}, {"topic": ""}, {}]''
                  then Some (JArr [JObj [(''topic'', JStr ''Graphs'')], JObj [(''topic'', JStr [])],
                                   JObj []])
                  else None))
          (JObj [(''syllabus_text'', JStr ''Algorithms'')]))
     = Inr (200, JObj [(''topics'', JArr [JStr ''Graphs''])])
   \<and> truthy (JStr ''Graphs'')\<close>
proof -
  let ?t = \<open>''[{"topic": "Graphs"}, {"topic": ""}, {}]''\<close>
  let ?up = "canned (JsonBody (completion_body (text_part ?t))) InvalidBody
     (\<lambda>s. if s = ?t
          then Some (JArr [JObj [(''topic'', JStr ''Graphs'')], JObj [(''topic'', JStr [])], JObj []])
          else None)"
  let ?data = "JObj [(''syllabus_text'', JStr ''Algorithms'')]"
  have sg: "schema_given (Some topics_schema)" by (simp add: schema_given_def topics_schema_def)
  have cl: "clean_json_string ?t = ?t"
    by (simp add: clean_json_string_def py_strip_def py_isspace_def)
  have r: "fst (extract_topics_route ?up ?data) = Inr (200, JObj [(''topics'', JArr [JStr ''Graphs''])])"
    by (simp add: extract_topics_route_def call_gemini_api_def Let_def canned_def
          gemini_result_text sg cl normalize_topics_def bind_err_def)
  show ?thesis
    using topics_are_truthy [OF r] r by simp
qed

text \<open>
  Claim C10 as it was stated fails where the upstream topic is not a string: a truthy
  number is answered as a topic.
\<close>

theorem topic_need_not_be_a_string:
  \<open>fst (extract_topics_route
          (canned (JsonBody (completion_body (text_part ''[{"topic": 5}]''))) InvalidBody
             (\<lambda>s. if s = ''[{"topic": 5}]'' then Some (JArr [JObj [(''topic'', JInt 5)]]) else None))
          (JObj [(''syllabus_text'', JStr ''Algorithms'')]))
     = Inr (200, JObj [(''topics'', JArr [JInt 5])])
   \<and> (\<forall>s. JInt 5 \<noteq> JStr s)\<close>
proof -
  have sg: "schema_given (Some topics_schema)" by (simp add: schema_given_def topics_schema_def)
  have cl: \<open>clean_json_string ''[{"topic": 5}]'' = ''[{"topic": 5}]''\<close>
    by (simp add: clean_json_string_def py_strip_def py_isspace_def)
  show ?thesis
    by (simp add: extract_topics_route_def call_gemini_api_def Let_def canned_def
          gemini_result_text sg cl normalize_topics_def bind_err_def)
qed

end
